theory Spec2Isabelle
  imports Main "HOL-Library.Sublist"
begin

section \<open>Python values seen by the transcoder\<close>

text \<open>
  The module \<^verbatim>\<open>ccproxy/formatters/anthropic_streaming.py\<close> handles chunks typed
  \<^verbatim>\<open>dict[str, Any]\<close> and builds dictionaries that it serialises with \<^verbatim>\<open>json.dumps\<close>.
  The values are modelled as JSON trees. A dictionary is an association list in insertion
  order, which is the order \<^verbatim>\<open>json.dumps\<close> writes; a lookup takes the first binding
  (a Python dictionary is such a list with distinct keys).
  Strings are lists of \<open>char\<close>, read as the code points 0..255. Floats are not modelled.
\<close>

datatype json =
    JNull
  | JBool bool
  | JInt int
  | JStr string
  | JList "json list"
  | JObj "(string \<times> json) list"

abbreviation dq :: char where "dq \<equiv> CHR 0x22"

abbreviation bsl :: char where "bsl \<equiv> CHR 0x5C"

abbreviation sq :: char where "sq \<equiv> CHR 0x27"

abbreviation nl :: char where "nl \<equiv> CHR 0x0A"

text \<open>\<^verbatim>\<open>d.get(key, default)\<close> on a dictionary.\<close>

definition dict_get :: "(string \<times> json) list \<Rightarrow> string \<Rightarrow> json \<Rightarrow> json" where
  "dict_get d k dflt = (case map_of d k of None \<Rightarrow> dflt | Some v \<Rightarrow> v)"

text \<open>Truth value of a Python object, as tested by \<^verbatim>\<open>if text:\<close>.\<close>

fun truthy :: "json \<Rightarrow> bool" where
  "truthy JNull = False"
| "truthy (JBool b) = b"
| "truthy (JInt i) = (i \<noteq> 0)"
| "truthy (JStr s) = (s \<noteq> [])"
| "truthy (JList xs) = (xs \<noteq> [])"
| "truthy (JObj kvs) = (kvs \<noteq> [])"

subsection \<open>Rendering: \<^verbatim>\<open>json.dumps\<close>, \<^verbatim>\<open>str\<close> and \<^verbatim>\<open>repr\<close>\<close>

definition hexdigit :: "nat \<Rightarrow> char" where
  "hexdigit n = ''0123456789abcdef'' ! (n mod 16)"

fun dec_nat :: "nat \<Rightarrow> string" where
  "dec_nat n = (if n < 10 then [hexdigit n] else dec_nat (n div 10) @ [hexdigit (n mod 10)])"

declare dec_nat.simps [simp del]

definition dec_int :: "int \<Rightarrow> string" where
  "dec_int i = (if i < 0 then CHR ''-'' # dec_nat (nat (- i)) else dec_nat (nat i))"

fun join :: "string \<Rightarrow> string list \<Rightarrow> string" where
  "join sep [] = []"
| "join sep [x] = x"
| "join sep (x # y # ys) = x @ sep @ join sep (y # ys)"

text \<open>
  String encoding of \<^verbatim>\<open>json.dumps\<close> with the default \<^verbatim>\<open>ensure_ascii=True\<close>: the quote and
  the backslash are escaped, the control characters with a short form take it, every other
  character outside \<^verbatim>\<open>' '..'~'\<close> becomes \<^verbatim>\<open>\u00XX\<close>.
\<close>

definition escape_char :: "char \<Rightarrow> string" where
  "escape_char c =
    (if c = dq then [bsl, dq]
     else if c = bsl then [bsl, bsl]
     else if c = nl then [bsl, CHR ''n'']
     else if c = CHR 0x0D then [bsl, CHR ''r'']
     else if c = CHR 0x09 then [bsl, CHR ''t'']
     else if c = CHR 0x08 then [bsl, CHR ''b'']
     else if c = CHR 0x0C then [bsl, CHR ''f'']
     else if 0x20 \<le> (of_char c :: nat) \<and> (of_char c :: nat) \<le> 0x7E then [c]
     else [bsl, CHR ''u'', CHR ''0'', CHR ''0'',
           hexdigit (of_char c div 16), hexdigit (of_char c mod 16)])"

definition encode_str :: "string \<Rightarrow> string" where
  "encode_str s = dq # concat (map escape_char s) @ [dq]"

text \<open>\<^verbatim>\<open>json.dumps(v, separators=(",", ":"))\<close>.\<close>

fun json_dumps :: "json \<Rightarrow> string" where
  "json_dumps JNull = ''null''"
| "json_dumps (JBool b) = (if b then ''true'' else ''false'')"
| "json_dumps (JInt i) = dec_int i"
| "json_dumps (JStr s) = encode_str s"
| "json_dumps (JList xs) = ''['' @ join '','' (map json_dumps xs) @ '']''"
| "json_dumps (JObj kvs) =
     ''{'' @ join '','' (map (\<lambda>(k, v). encode_str k @ '':'' @ json_dumps v) kvs) @ ''}''"

text \<open>
  \<^verbatim>\<open>repr\<close> of a string: single quotes unless the string has a single quote and no double
  quote; the chosen quote and the backslash are escaped, tab, newline and carriage return
  take their short form, the other unprintable characters become \<^verbatim>\<open>\xNN\<close>.
\<close>

definition repr_char :: "char \<Rightarrow> char \<Rightarrow> string" where
  "repr_char quote c =
    (if c = quote \<or> c = bsl then [bsl, c]
     else if c = CHR 0x09 then [bsl, CHR ''t'']
     else if c = nl then [bsl, CHR ''n'']
     else if c = CHR 0x0D then [bsl, CHR ''r'']
     else if (of_char c :: nat) < 0x20 \<or> c = CHR 0x7F
            \<or> (0x80 \<le> (of_char c :: nat) \<and> (of_char c :: nat) \<le> 0xA0) \<or> c = CHR 0xAD
       then [bsl, CHR ''x'', hexdigit (of_char c div 16), hexdigit (of_char c mod 16)]
     else [c])"

definition repr_str :: "string \<Rightarrow> string" where
  "repr_str s =
    (let quote = (if sq \<in> set s \<and> dq \<notin> set s then dq else sq)
     in quote # concat (map (repr_char quote) s) @ [quote])"

fun py_repr :: "json \<Rightarrow> string" where
  "py_repr JNull = ''None''"
| "py_repr (JBool b) = (if b then ''True'' else ''False'')"
| "py_repr (JInt i) = dec_int i"
| "py_repr (JStr s) = repr_str s"
| "py_repr (JList xs) = ''['' @ join '', '' (map py_repr xs) @ '']''"
| "py_repr (JObj kvs) =
     ''{'' @ join '', '' (map (\<lambda>(k, v). repr_str k @ '': '' @ py_repr v) kvs) @ ''}''"

text \<open>\<^verbatim>\<open>str(v)\<close>, which is what an f-string writes for \<^verbatim>\<open>{v}\<close>.\<close>

fun py_str :: "json \<Rightarrow> string" where
  "py_str (JStr s) = s"
| "py_str v = py_repr v"

section \<open>Exceptions and the upstream iterator\<close>

text \<open>
  The handlers of \<^verbatim>\<open>stream_claude_response\<close> tell three kinds of exception apart:
  \<^verbatim>\<open>asyncio.CancelledError\<close>, the instances of \<^verbatim>\<open>Exception\<close> (carried with their
  \<^verbatim>\<open>str(e)\<close>), and the other instances of \<^verbatim>\<open>BaseException\<close>, which no handler catches.
\<close>

datatype exn =
    CancelledError
  | Exception string
  | BaseException string

text \<open>
  What \<^verbatim>\<open>async for\<close> observes of an asynchronous iterator that ends: the chunks it
  produces, then either \<^verbatim>\<open>StopAsyncIteration\<close> or an exception out of \<^verbatim>\<open>__anext__\<close>
  (a cancellation of the task waiting there arrives as \<^verbatim>\<open>CancelledError\<close>).
  The argument of \<^verbatim>\<open>stream_claude_response\<close> is such an iterator or a value without
  \<^verbatim>\<open>__aiter__\<close>.
\<close>

datatype ending = StopAsyncIteration | Raise exn

datatype response_iterator =
    NotAsyncIterable json
  | AsyncIterable "json list" ending

text \<open>
  \<^verbatim>\<open>v.get(key, default)\<close> on any value: only a dictionary has the method, the other
  values raise \<^verbatim>\<open>AttributeError\<close>.
\<close>

fun py_type_name :: "json \<Rightarrow> string" where
  "py_type_name JNull = ''NoneType''"
| "py_type_name (JBool b) = ''bool''"
| "py_type_name (JInt i) = ''int''"
| "py_type_name (JStr s) = ''str''"
| "py_type_name (JList xs) = ''list''"
| "py_type_name (JObj kvs) = ''dict''"

definition attribute_error :: "json \<Rightarrow> exn" where
  "attribute_error v =
     Exception ([sq] @ py_type_name v @ [sq] @ '' object has no attribute '' @ [sq] @ ''get'' @ [sq])"

fun py_get :: "json \<Rightarrow> string \<Rightarrow> json \<Rightarrow> exn + json" where
  "py_get (JObj d) k dflt = Inr (dict_get d k dflt)"
| "py_get v k dflt = Inl (attribute_error v)"

section \<open>StreamingFormatter\<close>

definition format_event :: "string \<Rightarrow> (string \<times> json) list \<Rightarrow> string" where
  "format_event event_type data =
    (let json_data = json_dumps (JObj data)
     in ''event: '' @ event_type @ [nl] @ ''data: '' @ json_data @ [nl, nl])"

definition format_data_only :: "(string \<times> json) list \<Rightarrow> string" where
  "format_data_only data =
    (let json_data = json_dumps (JObj data);
         event_type = dict_get data ''type'' (JStr ''unknown'')
     in ''event: '' @ py_str event_type @ [nl] @ ''data: '' @ json_data @ [nl, nl])"

definition format_message_start :: "string \<Rightarrow> string \<Rightarrow> string \<Rightarrow> string" where
  "format_message_start message_id model role =
    format_data_only
      [(''type'', JStr ''message_start''),
       (''message'', JObj
          [(''id'', JStr message_id),
           (''type'', JStr ''message''),
           (''role'', JStr role),
           (''content'', JList []),
           (''model'', JStr model),
           (''stop_reason'', JNull),
           (''stop_sequence'', JNull),
           (''usage'', JObj [(''input_tokens'', JInt 0), (''output_tokens'', JInt 0)])])]"

definition format_content_block_start :: "int \<Rightarrow> string" where
  "format_content_block_start index =
    format_data_only
      [(''type'', JStr ''content_block_start''),
       (''index'', JInt index),
       (''content_block'', JObj [(''type'', JStr ''text''), (''text'', JStr '''')])]"

definition format_content_block_delta :: "json \<Rightarrow> int \<Rightarrow> string" where
  "format_content_block_delta text index =
    format_data_only
      [(''type'', JStr ''content_block_delta''),
       (''index'', JInt index),
       (''delta'', JObj [(''type'', JStr ''text_delta''), (''text'', text)])]"

definition format_content_block_stop :: "int \<Rightarrow> string" where
  "format_content_block_stop index =
    format_data_only [(''type'', JStr ''content_block_stop''), (''index'', JInt index)]"

definition format_message_delta :: "json \<Rightarrow> json \<Rightarrow> string" where
  "format_message_delta stop_reason stop_sequence =
    format_data_only
      [(''type'', JStr ''message_delta''),
       (''delta'', JObj [(''stop_reason'', stop_reason), (''stop_sequence'', stop_sequence)]),
       (''usage'', JObj [(''output_tokens'', JInt 0)])]"

definition format_message_stop :: string where
  "format_message_stop = format_data_only [(''type'', JStr ''message_stop'')]"

text \<open>
  Modelled from the spec: the classes \<^verbatim>\<open>StreamingError\<close> and \<^verbatim>\<open>ErrorDetail\<close> of
  \<^verbatim>\<open>ccproxy.models.errors\<close>, whose \<^verbatim>\<open>model_dump()\<close> gives the dictionary that
  \<^verbatim>\<open>format_error\<close> serialises, are not among the sources. The spec gives the shape of the
  error frame's body as an object with the single field \<^verbatim>\<open>error\<close>, itself an object with
  the fields \<^verbatim>\<open>type\<close> and \<^verbatim>\<open>message\<close>.
\<close>

definition StreamingError_model_dump :: "string \<Rightarrow> string \<Rightarrow> (string \<times> json) list" where
  "StreamingError_model_dump error_type message =
    [(''error'', JObj [(''type'', JStr error_type), (''message'', JStr message)])]"

definition format_error :: "string \<Rightarrow> string \<Rightarrow> string" where
  "format_error error_type message =
    format_data_only (StreamingError_model_dump error_type message)"

definition format_done :: string where
  "format_done = ''data: [DONE]'' @ [nl, nl]"

section \<open>The transcoder\<close>

text \<open>
  An asynchronous generator is modelled by what a consumer that drains it observes: the
  frames it yields, in order, and then whether it finishes (\<open>None\<close>) or raises (\<open>Some e\<close>).
  A frame yielded by a handler or by the \<^verbatim>\<open>finally\<close> clause while an exception is
  propagating is delivered before that exception. Calls of the logger are not modelled.
\<close>

type_synonym generator_run = "string list \<times> exn option"

text \<open>How the \<^verbatim>\<open>async for\<close> loop over the chunks is left.\<close>

datatype loop_exit = Exhausted | Broke | Raised exn

definition yield :: "string \<Rightarrow> string list \<times> bool \<times> loop_exit \<Rightarrow> string list \<times> bool \<times> loop_exit" where
  "yield frame r = (case r of (frames, has_content, ex) \<Rightarrow> (frame # frames, has_content, ex))"

text \<open>
  The loop of lines 172 to 188, from the state \<open>has_content\<close>: the frames yielded inside
  the loop, the flag when the loop is left, and how it is left. After \<^verbatim>\<open>break\<close> and after
  an exception the remaining chunks and the ending of the iterator are not looked at.
\<close>

fun process_chunks :: "json list \<Rightarrow> ending \<Rightarrow> bool \<Rightarrow> string list \<times> bool \<times> loop_exit" where
  "process_chunks [] e has_content =
     ([], has_content, (case e of StopAsyncIteration \<Rightarrow> Exhausted | Raise x \<Rightarrow> Raised x))"
| "process_chunks (JObj chunk # rest) e has_content =
     (if dict_get chunk ''type'' JNull = JStr ''content_block_delta'' then
        (case py_get (dict_get chunk ''delta'' (JObj [])) ''text'' (JStr []) of
           Inl x \<Rightarrow> ([], has_content, Raised x)
         | Inr text \<Rightarrow>
             if truthy text
             then yield (format_content_block_delta text 0) (process_chunks rest e True)
             else process_chunks rest e has_content)
      else if dict_get chunk ''type'' JNull = JStr ''message_delta'' then
        yield (format_content_block_stop 0)
          (case py_get (dict_get chunk ''delta'' (JObj [])) ''stop_reason'' (JStr ''end_turn'') of
             Inl x \<Rightarrow> ([], has_content, Raised x)
           | Inr stop_reason \<Rightarrow>
               (case py_get (dict_get chunk ''delta'' (JObj [])) ''stop_sequence'' JNull of
                  Inl x \<Rightarrow> ([], has_content, Raised x)
                | Inr stop_sequence \<Rightarrow>
                    ([format_message_delta stop_reason stop_sequence, format_message_stop],
                     has_content, Broke)))
      else process_chunks rest e has_content)"
| "process_chunks (chunk # rest) e has_content = process_chunks rest e has_content"

text \<open>
  The inner \<^verbatim>\<open>try\<close> statement (lines 171 to 211): the loop, the closing frames after it
  when \<open>has_content\<close> is false, and the two handlers, which both re-raise.
\<close>

definition drain :: "json list \<Rightarrow> ending \<Rightarrow> generator_run" where
  "drain chunks e =
    (case process_chunks chunks e False of (frames, has_content, ex) \<Rightarrow>
      (case ex of
         Raised CancelledError \<Rightarrow>
           (frames
            @ (if \<not> has_content then [format_content_block_stop 0] else [])
            @ [format_message_delta (JStr ''cancelled'') JNull, format_message_stop],
            Some CancelledError)
       | Raised (Exception msg) \<Rightarrow>
           (frames
            @ (if \<not> has_content then [format_content_block_stop 0] else [])
            @ [format_message_delta (JStr ''error'') JNull, format_message_stop],
            Some (Exception msg))
       | Raised (BaseException msg) \<Rightarrow> (frames, Some (BaseException msg))
       | _ \<Rightarrow>
           (frames
            @ (if \<not> has_content
               then [format_content_block_stop 0,
                     format_message_delta (JStr ''end_turn'') JNull,
                     format_message_stop]
               else []),
            None)))"

text \<open>
  \<^verbatim>\<open>stream_claude_response\<close>: the type guard, then the outer \<^verbatim>\<open>try\<close> statement
  (lines 162 to 223) with its two handlers and the \<^verbatim>\<open>finally\<close> clause.
\<close>

definition stream_claude_response :: "response_iterator \<Rightarrow> string \<Rightarrow> string \<Rightarrow> generator_run" where
  "stream_claude_response claude_response_iterator message_id model =
    (case claude_response_iterator of
       NotAsyncIterable v \<Rightarrow>
         ([format_error ''internal_server_error'' ''Invalid response type from Claude client'',
           format_done],
          None)
     | AsyncIterable chunks e \<Rightarrow>
         (case drain chunks e of (inner, raised) \<Rightarrow>
            (let body = [format_message_start message_id model ''assistant'',
                         format_content_block_start 0] @ inner
             in case raised of
                  None \<Rightarrow> (body @ [format_done], None)
                | Some CancelledError \<Rightarrow> (body @ [format_done], Some CancelledError)
                | Some (Exception msg) \<Rightarrow>
                    (body @ [format_error ''internal_server_error'' msg] @ [format_done], None)
                | Some (BaseException msg) \<Rightarrow> (body @ [format_done], Some (BaseException msg)))))"

text \<open>
  \<^verbatim>\<open>stream_anthropic_message_response\<close> iterates over \<^verbatim>\<open>stream_claude_response\<close> and
  yields each frame again; an exception of the inner generator leaves the loop as it is.
\<close>

fun relay :: "string list \<Rightarrow> string list" where
  "relay [] = []"
| "relay (chunk # rest) = chunk # relay rest"

definition stream_anthropic_message_response :: "response_iterator \<Rightarrow> string \<Rightarrow> string \<Rightarrow> generator_run" where
  "stream_anthropic_message_response claude_response_iterator message_id model =
    (case stream_claude_response claude_response_iterator message_id model of
       (frames, raised) \<Rightarrow> (relay frames, raised))"

section \<open>Reading chunks and frames\<close>

text \<open>
  The fields of a chunk that the loop reads: \<^verbatim>\<open>chunk.get("type")\<close> and
  \<^verbatim>\<open>chunk.get("delta", {})\<close>, and a field of the delta when the delta is a dictionary.
  A chunk that is not a dictionary has no type for the loop.
\<close>

definition chunk_type :: "json \<Rightarrow> json" where
  "chunk_type c = (case c of JObj d \<Rightarrow> dict_get d ''type'' JNull | _ \<Rightarrow> JNull)"

definition chunk_delta :: "json \<Rightarrow> json" where
  "chunk_delta c = (case c of JObj d \<Rightarrow> dict_get d ''delta'' (JObj []) | _ \<Rightarrow> JObj [])"

definition is_dict :: "json \<Rightarrow> bool" where
  "is_dict v = (case v of JObj d \<Rightarrow> True | _ \<Rightarrow> False)"

definition delta_field :: "json \<Rightarrow> string \<Rightarrow> json \<Rightarrow> json" where
  "delta_field c k dflt = (case chunk_delta c of JObj dd \<Rightarrow> dict_get dd k dflt | _ \<Rightarrow> dflt)"

definition is_content_delta :: "json \<Rightarrow> bool" where
  "is_content_delta c = (chunk_type c = JStr ''content_block_delta'')"

definition is_message_delta :: "json \<Rightarrow> bool" where
  "is_message_delta c = (chunk_type c = JStr ''message_delta'')"

definition chunk_text :: "json \<Rightarrow> json" where
  "chunk_text c = delta_field c ''text'' (JStr [])"

text \<open>
  A chunk of one of the two types whose delta is present and not a dictionary makes the
  loop raise; a content chunk with a true text makes it yield a content frame.
\<close>

definition malformed :: "json \<Rightarrow> bool" where
  "malformed c = ((is_content_delta c \<or> is_message_delta c) \<and> \<not> is_dict (chunk_delta c))"

definition carries_text :: "json \<Rightarrow> bool" where
  "carries_text c = (is_content_delta c \<and> is_dict (chunk_delta c) \<and> truthy (chunk_text c))"

text \<open>The loop goes past a chunk when it neither breaks nor raises there.\<close>

definition passes :: "json \<Rightarrow> bool" where
  "passes c = (\<not> is_message_delta c \<and> \<not> malformed c)"

definition delta_texts :: "json list \<Rightarrow> json list" where
  "delta_texts chunks = map chunk_text (filter carries_text chunks)"

definition content_frames :: "json list \<Rightarrow> string list" where
  "content_frames texts = map (\<lambda>text. format_content_block_delta text 0) texts"

text \<open>A \<^verbatim>\<open>message_delta\<close> chunk is reached before any content frame was yielded.\<close>

fun message_delta_before_content :: "json list \<Rightarrow> bool" where
  "message_delta_before_content [] = False"
| "message_delta_before_content (c # rest) =
     (if is_message_delta c then True
      else if carries_text c \<or> malformed c then False
      else message_delta_before_content rest)"

text \<open>The value of the \<^verbatim>\<open>event:\<close> line a frame starts with, if it starts with one.\<close>

definition frame_event :: "string \<Rightarrow> string option" where
  "frame_event frame =
    (if take 7 frame = ''event: ''
     then Some (takeWhile (\<lambda>c. c \<noteq> nl) (drop 7 frame))
     else None)"

definition delta_frames :: "string list \<Rightarrow> string list" where
  "delta_frames frames = filter (\<lambda>f. frame_event f = Some ''content_block_delta'') frames"

text \<open>
  The lifecycle grammar with \<open>n\<close> content frames, as the list of the events of its frames.
  A list of events is a prefix of the grammar when it is a prefix of the word with as many
  content frames as the list has.
\<close>

definition lifecycle_grammar :: "nat \<Rightarrow> string option list" where
  "lifecycle_grammar n =
    [Some ''message_start'', Some ''content_block_start'']
    @ replicate n (Some ''content_block_delta'')
    @ [Some ''content_block_stop'', Some ''message_delta'', Some ''message_stop'']"

definition grammar_prefix :: "string option list \<Rightarrow> bool" where
  "grammar_prefix events =
    prefix events (lifecycle_grammar (count_list events (Some ''content_block_delta'')))"

definition follows_grammar :: "string list \<Rightarrow> bool" where
  "follows_grammar frames =
    (frames \<noteq> [] \<and> last frames = format_done
     \<and> grammar_prefix (map frame_event (butlast frames)))"

text \<open>The chunks the test suite feeds to the client mock (test file, lines 361 to 363).\<close>

definition start_chunk :: "string \<Rightarrow> json" where
  "start_chunk message_id =
    JObj [(''type'', JStr ''message_start''), (''message'', JObj [(''id'', JStr message_id)])]"

definition text_chunk :: "string \<Rightarrow> json" where
  "text_chunk text =
    JObj [(''type'', JStr ''content_block_delta''), (''delta'', JObj [(''text'', JStr text)])]"

definition stop_chunk :: "string \<Rightarrow> json" where
  "stop_chunk stop_reason =
    JObj [(''type'', JStr ''message_delta''), (''delta'', JObj [(''stop_reason'', JStr stop_reason)])]"

text \<open>A content chunk whose delta is a dictionary, so that it carries a text.\<close>

definition content_chunk :: "json \<Rightarrow> bool" where
  "content_chunk c = (is_content_delta c \<and> is_dict (chunk_delta c))"

subsection \<open>The frames on the wire\<close>

text \<open>
  The frames as the client reads them (spec, sections 4.1 and 6), written out as strings.
  The arguments are JSON texts; \<open>quoted\<close> puts a plain word between double quotes.
  The theorems state the runs of the transcoder with these strings.
\<close>

abbreviation quoted :: "string \<Rightarrow> string" where
  "quoted word \<equiv> [dq] @ word @ [dq]"

abbreviation message_start_wire :: "string \<Rightarrow> string \<Rightarrow> string" where
  "message_start_wire id_json model_json \<equiv>
    ''event: message_start'' @ [nl] @ ''data: {''
    @ quoted ''type'' @ '':'' @ quoted ''message_start'' @ '',''
    @ quoted ''message'' @ '':{''
      @ quoted ''id'' @ '':'' @ id_json @ '',''
      @ quoted ''type'' @ '':'' @ quoted ''message'' @ '',''
      @ quoted ''role'' @ '':'' @ quoted ''assistant'' @ '',''
      @ quoted ''content'' @ '':[],''
      @ quoted ''model'' @ '':'' @ model_json @ '',''
      @ quoted ''stop_reason'' @ '':null,''
      @ quoted ''stop_sequence'' @ '':null,''
      @ quoted ''usage'' @ '':{''
        @ quoted ''input_tokens'' @ '':0,'' @ quoted ''output_tokens'' @ '':0}}}''
    @ [nl, nl]"

abbreviation content_block_start_wire :: string where
  "content_block_start_wire \<equiv>
    ''event: content_block_start'' @ [nl] @ ''data: {''
    @ quoted ''type'' @ '':'' @ quoted ''content_block_start'' @ '',''
    @ quoted ''index'' @ '':0,''
    @ quoted ''content_block'' @ '':{''
      @ quoted ''type'' @ '':'' @ quoted ''text'' @ '',''
      @ quoted ''text'' @ '':'' @ quoted [] @ ''}}''
    @ [nl, nl]"

abbreviation content_block_delta_wire :: "string \<Rightarrow> string" where
  "content_block_delta_wire text_json \<equiv>
    ''event: content_block_delta'' @ [nl] @ ''data: {''
    @ quoted ''type'' @ '':'' @ quoted ''content_block_delta'' @ '',''
    @ quoted ''index'' @ '':0,''
    @ quoted ''delta'' @ '':{''
      @ quoted ''type'' @ '':'' @ quoted ''text_delta'' @ '',''
      @ quoted ''text'' @ '':'' @ text_json @ ''}}''
    @ [nl, nl]"

abbreviation content_block_stop_wire :: string where
  "content_block_stop_wire \<equiv>
    ''event: content_block_stop'' @ [nl] @ ''data: {''
    @ quoted ''type'' @ '':'' @ quoted ''content_block_stop'' @ '',''
    @ quoted ''index'' @ '':0}''
    @ [nl, nl]"

abbreviation message_delta_wire :: "string \<Rightarrow> string \<Rightarrow> string" where
  "message_delta_wire stop_reason_json stop_sequence_json \<equiv>
    ''event: message_delta'' @ [nl] @ ''data: {''
    @ quoted ''type'' @ '':'' @ quoted ''message_delta'' @ '',''
    @ quoted ''delta'' @ '':{''
      @ quoted ''stop_reason'' @ '':'' @ stop_reason_json @ '',''
      @ quoted ''stop_sequence'' @ '':'' @ stop_sequence_json @ ''},''
    @ quoted ''usage'' @ '':{'' @ quoted ''output_tokens'' @ '':0}}''
    @ [nl, nl]"

abbreviation message_stop_wire :: string where
  "message_stop_wire \<equiv>
    ''event: message_stop'' @ [nl] @ ''data: {''
    @ quoted ''type'' @ '':'' @ quoted ''message_stop'' @ ''}''
    @ [nl, nl]"

abbreviation error_body_wire :: "string \<Rightarrow> string \<Rightarrow> string" where
  "error_body_wire type_json message_json \<equiv>
    ''{'' @ quoted ''error'' @ '':{''
      @ quoted ''type'' @ '':'' @ type_json @ '',''
      @ quoted ''message'' @ '':'' @ message_json @ ''}}''"

abbreviation done_wire :: string where
  "done_wire \<equiv> ''data: [DONE]'' @ [nl, nl]"

text \<open>The events of the frames, for the statements about their order.\<close>

abbreviation opening_events :: "string option list" where
  "opening_events \<equiv> [Some ''message_start'', Some ''content_block_start'']"

abbreviation content_events :: "nat \<Rightarrow> string option list" where
  "content_events n \<equiv> replicate n (Some ''content_block_delta'')"

abbreviation closing_events :: "string option list" where
  "closing_events \<equiv> [Some ''content_block_stop'', Some ''message_delta'', Some ''message_stop'']"

section \<open>Frames and their events\<close>

lemma format_data_only_not_done: "format_data_only d \<noteq> format_done"
  by (simp add: format_data_only_def format_done_def Let_def)

lemma frame_event_data_only:
  assumes "dict_get d ''type'' (JStr ''unknown'') = JStr t" and "nl \<notin> set t"
  shows "frame_event (format_data_only d) = Some t"
proof -
  have "takeWhile (\<lambda>c. c \<noteq> nl) (t @ nl # rest) = t" for rest
    using assms(2) by (induction t) auto
  then show ?thesis
    using assms(1) by (simp add: frame_event_def format_data_only_def Let_def)
qed

lemma frame_event_done: "frame_event format_done = None"
  by (simp add: frame_event_def format_done_def)

lemma frame_event_message_start:
  "frame_event (format_message_start i m r) = Some ''message_start''"
  unfolding format_message_start_def
  by (rule frame_event_data_only) (simp_all add: dict_get_def)

lemma frame_event_content_block_start:
  "frame_event (format_content_block_start i) = Some ''content_block_start''"
  unfolding format_content_block_start_def
  by (rule frame_event_data_only) (simp_all add: dict_get_def)

lemma frame_event_content_block_delta:
  "frame_event (format_content_block_delta t i) = Some ''content_block_delta''"
  unfolding format_content_block_delta_def
  by (rule frame_event_data_only) (simp_all add: dict_get_def)

lemma frame_event_content_block_stop:
  "frame_event (format_content_block_stop i) = Some ''content_block_stop''"
  unfolding format_content_block_stop_def
  by (rule frame_event_data_only) (simp_all add: dict_get_def)

lemma frame_event_message_delta:
  "frame_event (format_message_delta r s) = Some ''message_delta''"
  unfolding format_message_delta_def
  by (rule frame_event_data_only) (simp_all add: dict_get_def)

lemma frame_event_message_stop:
  "frame_event format_message_stop = Some ''message_stop''"
  unfolding format_message_stop_def
  by (rule frame_event_data_only) (simp_all add: dict_get_def)

lemma frame_event_error:
  "frame_event (format_error t m) = Some ''unknown''"
  unfolding format_error_def StreamingError_model_dump_def
  by (rule frame_event_data_only) (simp_all add: dict_get_def)

section \<open>The loop, chunk by chunk\<close>

lemma step_non_dict:
  "\<not> is_dict c \<Longrightarrow> process_chunks (c # rest) e hc = process_chunks rest e hc"
  by (cases c) (simp_all add: is_dict_def)

lemma step_other:
  "\<not> is_content_delta c \<Longrightarrow> \<not> is_message_delta c \<Longrightarrow>
   process_chunks (c # rest) e hc = process_chunks rest e hc"
  by (cases c) (simp_all add: is_content_delta_def is_message_delta_def chunk_type_def)

lemma step_text:
  "carries_text c \<Longrightarrow>
   process_chunks (c # rest) e hc =
     yield (format_content_block_delta (chunk_text c) 0) (process_chunks rest e True)"
  by (cases c; cases "chunk_delta c")
     (simp_all add: carries_text_def is_content_delta_def chunk_type_def chunk_delta_def
        is_dict_def chunk_text_def delta_field_def)

lemma step_no_text:
  "is_content_delta c \<Longrightarrow> is_dict (chunk_delta c) \<Longrightarrow> \<not> truthy (chunk_text c) \<Longrightarrow>
   process_chunks (c # rest) e hc = process_chunks rest e hc"
  by (cases c; cases "chunk_delta c")
     (simp_all add: is_content_delta_def chunk_type_def chunk_delta_def
        is_dict_def chunk_text_def delta_field_def)

lemma step_content_raises:
  "is_content_delta c \<Longrightarrow> \<not> is_dict (chunk_delta c) \<Longrightarrow>
   process_chunks (c # rest) e hc = ([], hc, Raised (attribute_error (chunk_delta c)))"
  by (cases c; cases "chunk_delta c")
     (simp_all add: is_content_delta_def chunk_type_def chunk_delta_def is_dict_def)

lemma step_message_delta:
  "is_message_delta c \<Longrightarrow> is_dict (chunk_delta c) \<Longrightarrow>
   process_chunks (c # rest) e hc =
     ([format_content_block_stop 0,
       format_message_delta (delta_field c ''stop_reason'' (JStr ''end_turn''))
                            (delta_field c ''stop_sequence'' JNull),
       format_message_stop], hc, Broke)"
  by (cases c; cases "chunk_delta c")
     (simp_all add: is_message_delta_def chunk_type_def chunk_delta_def
        is_dict_def delta_field_def yield_def)

lemma step_message_delta_raises:
  "is_message_delta c \<Longrightarrow> \<not> is_dict (chunk_delta c) \<Longrightarrow>
   process_chunks (c # rest) e hc =
     ([format_content_block_stop 0], hc, Raised (attribute_error (chunk_delta c)))"
  by (cases c; cases "chunk_delta c")
     (simp_all add: is_message_delta_def chunk_type_def chunk_delta_def is_dict_def yield_def)

lemma process_chunks_past:
  "list_all passes pre \<Longrightarrow>
   process_chunks (pre @ rest) e hc =
     (case process_chunks rest e (hc \<or> delta_texts pre \<noteq> []) of
        (frames, hc', ex) \<Rightarrow> (content_frames (delta_texts pre) @ frames, hc', ex))"
proof (induction pre arbitrary: hc)
  case Nil
  then show ?case by (simp add: delta_texts_def content_frames_def)
next
  case (Cons c pre)
  from Cons.prems have pre: "list_all passes pre" by simp
  from Cons.prems have "passes c" by simp
  then have c: "\<not> is_message_delta c" "\<not> malformed c"
    by (simp_all add: passes_def)
  show ?case
  proof (cases "carries_text c")
    case True
    then show ?thesis
      using Cons.IH [OF pre, of True]
      by (simp add: step_text delta_texts_def content_frames_def yield_def split: prod.splits)
  next
    case False
    have "process_chunks (c # pre @ rest) e hc = process_chunks (pre @ rest) e hc"
    proof (cases "is_content_delta c")
      case True
      with c False show ?thesis
        by (simp add: step_no_text malformed_def carries_text_def)
    next
      case False
      with c show ?thesis by (simp add: step_other)
    qed
    then show ?thesis
      using Cons.IH [OF pre, of hc] False
      by (simp add: delta_texts_def content_frames_def)
  qed
qed

lemma process_chunks_all_past:
  "list_all passes chunks \<Longrightarrow>
   process_chunks chunks e False =
     (content_frames (delta_texts chunks), delta_texts chunks \<noteq> [],
      (case e of StopAsyncIteration \<Rightarrow> Exhausted | Raise x \<Rightarrow> Raised x))"
  using process_chunks_past [of chunks "[]" e False] by simp

section \<open>The runs of the transcoder, path by path\<close>

lemmas chunk_reading =
  passes_def malformed_def carries_text_def is_content_delta_def is_message_delta_def
  chunk_type_def chunk_delta_def chunk_text_def delta_field_def is_dict_def dict_get_def
  delta_texts_def content_frames_def

lemma run_exhausted:
  assumes "list_all passes chunks"
  shows "stream_claude_response (AsyncIterable chunks StopAsyncIteration) message_id model =
    ([format_message_start message_id model ''assistant'', format_content_block_start 0]
     @ content_frames (delta_texts chunks)
     @ (if delta_texts chunks = []
        then [format_content_block_stop 0, format_message_delta (JStr ''end_turn'') JNull,
              format_message_stop]
        else [])
     @ [format_done],
     None)"
  by (simp add: stream_claude_response_def drain_def process_chunks_all_past [OF assms])

lemma run_cancelled:
  assumes "list_all passes chunks"
  shows "stream_claude_response (AsyncIterable chunks (Raise CancelledError)) message_id model =
    ([format_message_start message_id model ''assistant'', format_content_block_start 0]
     @ content_frames (delta_texts chunks)
     @ (if delta_texts chunks = [] then [format_content_block_stop 0] else [])
     @ [format_message_delta (JStr ''cancelled'') JNull, format_message_stop, format_done],
     Some CancelledError)"
  by (simp add: stream_claude_response_def drain_def process_chunks_all_past [OF assms])

lemma run_exception:
  assumes "list_all passes chunks"
  shows "stream_claude_response (AsyncIterable chunks (Raise (Exception msg))) message_id model =
    ([format_message_start message_id model ''assistant'', format_content_block_start 0]
     @ content_frames (delta_texts chunks)
     @ (if delta_texts chunks = [] then [format_content_block_stop 0] else [])
     @ [format_message_delta (JStr ''error'') JNull, format_message_stop,
        format_error ''internal_server_error'' msg, format_done],
     None)"
  by (simp add: stream_claude_response_def drain_def process_chunks_all_past [OF assms])

lemma run_base_exception:
  assumes "list_all passes chunks"
  shows "stream_claude_response (AsyncIterable chunks (Raise (BaseException msg))) message_id model =
    ([format_message_start message_id model ''assistant'', format_content_block_start 0]
     @ content_frames (delta_texts chunks) @ [format_done],
     Some (BaseException msg))"
  by (simp add: stream_claude_response_def drain_def process_chunks_all_past [OF assms])

lemma run_message_delta:
  assumes "list_all passes pre" and "is_message_delta c" and "is_dict (chunk_delta c)"
  shows "stream_claude_response (AsyncIterable (pre @ c # rest) e) message_id model =
    ([format_message_start message_id model ''assistant'', format_content_block_start 0]
     @ content_frames (delta_texts pre)
     @ [format_content_block_stop 0,
        format_message_delta (delta_field c ''stop_reason'' (JStr ''end_turn''))
                             (delta_field c ''stop_sequence'' JNull),
        format_message_stop]
     @ (if delta_texts pre = []
        then [format_content_block_stop 0, format_message_delta (JStr ''end_turn'') JNull,
              format_message_stop]
        else [])
     @ [format_done],
     None)"
  by (simp add: stream_claude_response_def drain_def process_chunks_past [OF assms(1)]
        step_message_delta [OF assms(2,3)])

lemma run_message_delta_raises:
  assumes "list_all passes pre" and "is_message_delta c" and "\<not> is_dict (chunk_delta c)"
  shows "stream_claude_response (AsyncIterable (pre @ c # rest) e) message_id model =
    ([format_message_start message_id model ''assistant'', format_content_block_start 0]
     @ content_frames (delta_texts pre)
     @ [format_content_block_stop 0]
     @ (if delta_texts pre = [] then [format_content_block_stop 0] else [])
     @ [format_message_delta (JStr ''error'') JNull, format_message_stop,
        format_error ''internal_server_error''
          ([sq] @ py_type_name (chunk_delta c) @ [sq] @ '' object has no attribute ''
           @ [sq] @ ''get'' @ [sq]),
        format_done],
     None)"
  by (simp add: stream_claude_response_def drain_def process_chunks_past [OF assms(1)]
        step_message_delta_raises [OF assms(2,3)] attribute_error_def)

lemma run_content_raises:
  assumes "list_all passes pre" and "is_content_delta c" and "\<not> is_dict (chunk_delta c)"
  shows "stream_claude_response (AsyncIterable (pre @ c # rest) e) message_id model =
    ([format_message_start message_id model ''assistant'', format_content_block_start 0]
     @ content_frames (delta_texts pre)
     @ (if delta_texts pre = [] then [format_content_block_stop 0] else [])
     @ [format_message_delta (JStr ''error'') JNull, format_message_stop,
        format_error ''internal_server_error''
          ([sq] @ py_type_name (chunk_delta c) @ [sq] @ '' object has no attribute ''
           @ [sq] @ ''get'' @ [sq]),
        format_done],
     None)"
  by (simp add: stream_claude_response_def drain_def process_chunks_past [OF assms(1)]
        step_content_raises [OF assms(2,3)] attribute_error_def)

lemma chunks_cases [case_names past stop stop_raises content_raises]:
  obtains "list_all passes chunks"
  | pre c rest where "chunks = pre @ c # rest" "list_all passes pre"
      "is_message_delta c" "is_dict (chunk_delta c)"
  | pre c rest where "chunks = pre @ c # rest" "list_all passes pre"
      "is_message_delta c" "\<not> is_dict (chunk_delta c)"
  | pre c rest where "chunks = pre @ c # rest" "list_all passes pre"
      "is_content_delta c" "\<not> is_dict (chunk_delta c)"
proof (cases "dropWhile passes chunks")
  case Nil
  then have "list_all passes chunks"
    by (simp add: list_all_iff)
  then show ?thesis by (rule that(1))
next
  case (Cons c rest)
  have split: "chunks = takeWhile passes chunks @ c # rest"
    using Cons takeWhile_dropWhile_id [of passes chunks] by simp
  have pre: "list_all passes (takeWhile passes chunks)"
    by (auto simp: list_all_iff dest: set_takeWhileD)
  have "\<not> passes c"
    using Cons hd_dropWhile [of passes chunks] by auto
  then consider "is_message_delta c" "is_dict (chunk_delta c)"
    | "is_message_delta c" "\<not> is_dict (chunk_delta c)"
    | "is_content_delta c" "\<not> is_dict (chunk_delta c)"
    by (auto simp: passes_def malformed_def)
  then show ?thesis
    using that(2-4) split pre by cases blast+
qed

section \<open>The done sentinel\<close>

lemmas example_chunks = start_chunk_def text_chunk_def stop_chunk_def content_chunk_def

lemma not_done [simp]:
  "format_message_start i m r \<noteq> format_done"
  "format_content_block_start k \<noteq> format_done"
  "format_content_block_delta t k \<noteq> format_done"
  "format_content_block_stop k \<noteq> format_done"
  "format_message_delta sr ss \<noteq> format_done"
  "format_message_stop \<noteq> format_done"
  "format_error et em \<noteq> format_done"
  by (simp_all add: format_message_start_def format_content_block_start_def
        format_content_block_delta_def format_content_block_stop_def format_message_delta_def
        format_message_stop_def format_error_def format_data_only_not_done)

lemma done_not [simp]:
  "format_done \<noteq> format_message_start i m r"
  "format_done \<noteq> format_content_block_start k"
  "format_done \<noteq> format_content_block_delta t k"
  "format_done \<noteq> format_content_block_stop k"
  "format_done \<noteq> format_message_delta sr ss"
  "format_done \<noteq> format_message_stop"
  "format_done \<noteq> format_error et em"
  using not_done by (metis+)

lemma content_frames_not_done [simp]: "format_done \<notin> set (content_frames texts)"
  by (auto simp: content_frames_def)

lemma sentinel_shape:
  "format_done \<notin> set body \<Longrightarrow>
   body @ [format_done] \<noteq> [] \<and> last (body @ [format_done]) = format_done
   \<and> count_list (body @ [format_done]) format_done = 1"
  by (simp add: count_list_0_iff)

text \<open>
  C2: whatever the argument and however the run ends (exhaustion, an empty upstream, an
  exception, a cancellation, an argument that is not an asynchronous iterable), the frames
  are not empty, the last one is exactly the DONE sentinel, and the sentinel occurs exactly
  once among them. On the paths that propagate an exception the sentinel is among the
  frames delivered before it.
\<close>

theorem done_sentinel_last_and_once:
  "fst (stream_claude_response it message_id model) \<noteq> []
   \<and> last (fst (stream_claude_response it message_id model)) = ''data: [DONE]'' @ [nl, nl]
   \<and> count_list (fst (stream_claude_response it message_id model)) (''data: [DONE]'' @ [nl, nl]) = 1"
proof -
  have "\<exists>body. fst (stream_claude_response it message_id model) = body @ [format_done]
          \<and> format_done \<notin> set body"
  proof (cases it)
    case (NotAsyncIterable v)
    then show ?thesis by (simp add: stream_claude_response_def)
  next
    case (AsyncIterable chunks e)
    show ?thesis
    proof (cases chunks rule: chunks_cases)
      case past
      show ?thesis
      proof (cases e)
        case StopAsyncIteration
        then show ?thesis using AsyncIterable run_exhausted [OF past] by simp
      next
        case (Raise x)
        then show ?thesis
          using AsyncIterable run_cancelled [OF past] run_exception [OF past]
            run_base_exception [OF past]
          by (cases x) simp_all
      qed
    next
      case (stop pre c rest)
      then show ?thesis using AsyncIterable run_message_delta [OF stop(2-4)] by simp
    next
      case (stop_raises pre c rest)
      then show ?thesis using AsyncIterable run_message_delta_raises [OF stop_raises(2-4)] by simp
    next
      case (content_raises pre c rest)
      then show ?thesis using AsyncIterable run_content_raises [OF content_raises(2-4)] by simp
    qed
  qed
  then obtain body where "fst (stream_claude_response it message_id model) = body @ [format_done]"
    and "format_done \<notin> set body" by blast
  then show ?thesis
    using sentinel_shape [of body] by (simp add: format_done_def)
qed

section \<open>The claims\<close>

lemma relay_id: "relay frames = frames"
  by (induction frames) simp_all

text \<open>
  C10: \<^verbatim>\<open>stream_anthropic_message_response\<close> yields the same frames as
  \<^verbatim>\<open>stream_claude_response\<close> on the same argument, message id and model, in the same order,
  and ends the same way: it finishes when the other finishes and raises the exception the
  other raises.
\<close>

theorem anthropic_wrapper_equivalent:
  "stream_anthropic_message_response claude_response_iterator message_id model =
   stream_claude_response claude_response_iterator message_id model"
  by (simp add: stream_anthropic_message_response_def relay_id split: prod.splits)

lemma encode_keys:
  "encode_str ''error'' = [dq] @ ''error'' @ [dq]"
  "encode_str ''type'' = [dq] @ ''type'' @ [dq]"
  "encode_str ''message'' = [dq] @ ''message'' @ [dq]"
  by (simp_all add: encode_str_def escape_char_def)

lemma format_error_frame:
  "format_error error_type message =
    ''event: unknown'' @ [nl] @ ''data: {'' @ [dq] @ ''error'' @ [dq] @ '':{''
      @ [dq] @ ''type'' @ [dq] @ '':'' @ encode_str error_type @ '',''
      @ [dq] @ ''message'' @ [dq] @ '':'' @ encode_str message @ ''}}'' @ [nl, nl]"
  by (simp add: format_error_def StreamingError_model_dump_def format_data_only_def
        dict_get_def encode_keys)

lemma encode_internal_server_error:
  "encode_str ''internal_server_error'' = [dq] @ ''internal_server_error'' @ [dq]"
  by (simp add: encode_str_def escape_char_def)

lemma encode_invalid_response:
  "encode_str ''Invalid response type from Claude client'' =
     [dq] @ ''Invalid response type from Claude client'' @ [dq]"
  by (simp add: encode_str_def escape_char_def)

text \<open>
  C7: for an argument that is not an asynchronous iterable the run has exactly two frames,
  the error frame of kind \<^verbatim>\<open>internal_server_error\<close> with the message
  \<^verbatim>\<open>Invalid response type from Claude client\<close> (which contains
  \<^verbatim>\<open>Invalid response type\<close>) and then the DONE sentinel; no frame is a
  \<^verbatim>\<open>message_start\<close> frame and the generator finishes without raising.
\<close>

theorem invalid_input_error_then_done:
  "stream_claude_response (NotAsyncIterable v) message_id model =
     ([format_error ''internal_server_error'' ''Invalid response type from Claude client'',
       format_done], None)
   \<and> format_error ''internal_server_error'' ''Invalid response type from Claude client'' =
       ''event: unknown'' @ [nl] @ ''data: {'' @ [dq] @ ''error'' @ [dq] @ '':{''
       @ [dq] @ ''type'' @ [dq] @ '':'' @ [dq] @ ''internal_server_error'' @ [dq] @ '',''
       @ [dq] @ ''message'' @ [dq] @ '':'' @ [dq] @ ''Invalid response type from Claude client''
       @ [dq] @ ''}}'' @ [nl, nl]
   \<and> sublist ''Invalid response type''
        (format_error ''internal_server_error'' ''Invalid response type from Claude client'')
   \<and> format_done = ''data: [DONE]'' @ [nl, nl]
   \<and> Some ''message_start''
        \<notin> set (map frame_event (fst (stream_claude_response (NotAsyncIterable v) message_id model)))"
proof -
  have frame: "format_error ''internal_server_error'' ''Invalid response type from Claude client'' =
       ''event: unknown'' @ [nl] @ ''data: {'' @ [dq] @ ''error'' @ [dq] @ '':{''
       @ [dq] @ ''type'' @ [dq] @ '':'' @ [dq] @ ''internal_server_error'' @ [dq] @ '',''
       @ [dq] @ ''message'' @ [dq] @ '':'' @ [dq] @ ''Invalid response type from Claude client''
       @ [dq] @ ''}}'' @ [nl, nl]"
    by (simp add: format_error_frame encode_internal_server_error encode_invalid_response)
  have "format_error ''internal_server_error'' ''Invalid response type from Claude client'' =
       (''event: unknown'' @ [nl] @ ''data: {'' @ [dq] @ ''error'' @ [dq] @ '':{''
       @ [dq] @ ''type'' @ [dq] @ '':'' @ [dq] @ ''internal_server_error'' @ [dq] @ '',''
       @ [dq] @ ''message'' @ [dq] @ '':'' @ [dq]) @ ''Invalid response type''
       @ ('' from Claude client'' @ [dq] @ ''}}'' @ [nl, nl])"
    by (simp add: frame)
  then have sub: "sublist ''Invalid response type''
        (format_error ''internal_server_error'' ''Invalid response type from Claude client'')"
    by (metis sublist_appendI)
  have run: "stream_claude_response (NotAsyncIterable v) message_id model =
     ([format_error ''internal_server_error'' ''Invalid response type from Claude client'',
       format_done], None)"
    by (simp add: stream_claude_response_def)
  have no_start: "Some ''message_start''
        \<notin> set (map frame_event (fst (stream_claude_response (NotAsyncIterable v) message_id model)))"
    by (simp add: run frame_event_error frame_event_done)
  have sentinel: "format_done = ''data: [DONE]'' @ [nl, nl]"
    by (simp add: format_done_def)
  show ?thesis
    by (intro conjI) (rule run frame sub sentinel no_start)+
qed

lemmas frame_events =
  frame_event_message_start frame_event_content_block_start frame_event_content_block_delta
  frame_event_content_block_stop frame_event_message_delta frame_event_message_stop
  frame_event_error frame_event_done

lemma passes_examples:
  "passes (start_chunk i)" "passes (text_chunk t)"
  "is_message_delta (stop_chunk r)" "is_dict (chunk_delta (stop_chunk r))"
  "content_chunk (text_chunk t)"
  by (simp_all add: chunk_reading example_chunks)

lemma delta_texts_examples:
  "delta_texts (start_chunk i # chunks) = delta_texts chunks"
  "delta_texts (text_chunk t # chunks) = (if t = [] then [] else [JStr t]) @ delta_texts chunks"
  "delta_texts [] = []"
  by (simp_all add: chunk_reading example_chunks)

lemma delta_field_stop_chunk:
  "delta_field (stop_chunk r) ''stop_reason'' (JStr ''end_turn'') = JStr r"
  "delta_field (stop_chunk r) ''stop_sequence'' JNull = JNull"
  by (simp_all add: chunk_reading example_chunks)

lemma delta_frames_append: "delta_frames (xs @ ys) = delta_frames xs @ delta_frames ys"
  by (simp add: delta_frames_def)

lemma delta_frames_content: "delta_frames (content_frames texts) = content_frames texts"
  by (induction texts) (simp_all add: delta_frames_def content_frames_def frame_events)

lemma delta_frames_others:
  "delta_frames (format_message_start i m r # fs) = delta_frames fs"
  "delta_frames (format_content_block_start k # fs) = delta_frames fs"
  "delta_frames (format_content_block_stop k # fs) = delta_frames fs"
  "delta_frames (format_message_delta sr ss # fs) = delta_frames fs"
  "delta_frames (format_message_stop # fs) = delta_frames fs"
  "delta_frames (format_error et em # fs) = delta_frames fs"
  "delta_frames (format_done # fs) = delta_frames fs"
  "delta_frames [] = []"
  by (simp_all add: delta_frames_def frame_events)

lemma content_chunks_pass:
  "list_all content_chunk chunks \<Longrightarrow> list_all passes chunks"
  by (induction chunks)
     (auto simp: content_chunk_def passes_def malformed_def is_message_delta_def
        is_content_delta_def)

lemma content_chunks_texts:
  "list_all content_chunk chunks \<Longrightarrow>
   delta_texts chunks = filter truthy (map chunk_text chunks)"
  by (induction chunks) (auto simp: content_chunk_def delta_texts_def carries_text_def)

lemma events_content_frames:
  "map frame_event (content_frames texts) = replicate (length texts) (Some ''content_block_delta'')"
  by (induction texts) (simp_all add: content_frames_def frame_events)

lemma message_delta_before_content_past:
  "list_all passes pre \<Longrightarrow>
   message_delta_before_content (pre @ rest) =
     (delta_texts pre = [] \<and> message_delta_before_content rest)"
  by (induction pre) (auto simp: passes_def delta_texts_def)

lemma count_content_events:
  "count_list ([Some ''message_start'', Some ''content_block_start'']
               @ replicate n (Some ''content_block_delta'') @ tail) (Some ''content_block_delta'')
   = n + count_list tail (Some ''content_block_delta'')"
  by (induction n) simp_all

lemma grammar_prefix_open:
  "grammar_prefix ([Some ''message_start'', Some ''content_block_start'']
                   @ replicate n (Some ''content_block_delta''))"
  using count_content_events [of n "[]"]
  by (simp add: grammar_prefix_def lifecycle_grammar_def)

lemma grammar_prefix_closed:
  "grammar_prefix ([Some ''message_start'', Some ''content_block_start'']
                   @ replicate n (Some ''content_block_delta'')
                   @ [Some ''content_block_stop'', Some ''message_delta'', Some ''message_stop''])"
  using count_content_events
    [of n "[Some ''content_block_stop'', Some ''message_delta'', Some ''message_stop'']"]
  by (simp add: grammar_prefix_def lifecycle_grammar_def)

lemma follows_grammar_open:
  "follows_grammar
     ([format_message_start i m r, format_content_block_start k]
      @ content_frames texts @ [format_done])"
  using grammar_prefix_open [of "length texts"]
  by (simp add: follows_grammar_def butlast_append frame_events events_content_frames)

lemma follows_grammar_closed:
  "follows_grammar
     ([format_message_start i m r, format_content_block_start k]
      @ content_frames texts
      @ [format_content_block_stop k', format_message_delta sr ss, format_message_stop, format_done])"
  using grammar_prefix_closed [of "length texts"]
  by (simp add: follows_grammar_def butlast_append frame_events events_content_frames)

text \<open>
  The executable test \<open>grammar_prefix\<close> is the property of being a prefix of a word of the
  grammar, for some number of content frames.
\<close>

lemma prefix_replicate:
  assumes "prefix us (replicate n x)"
  shows "us = replicate (length us) x"
proof -
  from assms obtain ws where "replicate n x = us @ ws"
    by (auto simp: prefix_def)
  then have "us = take (length us) (replicate n x)"
    by simp
  moreover from assms have "length us \<le> n"
    using prefix_length_le by fastforce
  ultimately show ?thesis
    by (simp add: min_def)
qed

lemma prefix_opening:
  "prefix events [a, b] \<Longrightarrow> events = [] \<or> events = [a] \<or> events = [a, b]"
  by (cases events; cases "tl events") auto

lemma grammar_prefix_iff:
  "grammar_prefix events \<longleftrightarrow> (\<exists>n. prefix events (lifecycle_grammar n))"
proof
  assume "grammar_prefix events"
  then show "\<exists>n. prefix events (lifecycle_grammar n)"
    unfolding grammar_prefix_def by (rule exI)
next
  assume "\<exists>n. prefix events (lifecycle_grammar n)"
  then obtain n where n: "prefix events (lifecycle_grammar n)" ..
  let ?opening = "[Some ''message_start'', Some ''content_block_start'']"
  let ?closing = "[Some ''content_block_stop'', Some ''message_delta'', Some ''message_stop'']"
  let ?delta = "Some ''content_block_delta''"
  from n have "prefix events (?opening @ (replicate n ?delta @ ?closing))"
    by (simp add: lifecycle_grammar_def)
  then have "prefix events ?opening
     \<or> (\<exists>us. events = ?opening @ us \<and> prefix us (replicate n ?delta @ ?closing))"
    by (simp only: prefix_append)
  then show "grammar_prefix events"
  proof (elim disjE exE conjE)
    assume "prefix events ?opening"
    then have "events = [] \<or> events = [Some ''message_start''] \<or> events = ?opening"
      by (rule prefix_opening)
    then show ?thesis
      by (elim disjE) (simp_all add: grammar_prefix_def lifecycle_grammar_def)
  next
    fix us
    assume events: "events = ?opening @ us"
      and "prefix us (replicate n ?delta @ ?closing)"
    then have "prefix us (replicate n ?delta)
      \<or> (\<exists>vs. us = replicate n ?delta @ vs \<and> prefix vs ?closing)"
      by (simp only: prefix_append)
    then show ?thesis
    proof (elim disjE exE conjE)
      assume "prefix us (replicate n ?delta)"
      then have "us = replicate (length us) ?delta"
        by (rule prefix_replicate)
      with events have "events = ?opening @ replicate (length us) ?delta"
        by simp
      then show ?thesis
        using grammar_prefix_open [of "length us"] by simp
    next
      fix vs
      assume us: "us = replicate n ?delta @ vs" and vs: "prefix vs ?closing"
      from vs have "set vs \<subseteq> set ?closing"
        by (rule set_mono_prefix)
      then have "?delta \<notin> set vs"
        by auto
      then have "count_list vs ?delta = 0"
        by (simp add: count_list_0_iff)
      then have "count_list events ?delta = n"
        using count_content_events [of n vs] events us by simp
      then show ?thesis
        using events us vs by (simp add: grammar_prefix_def lifecycle_grammar_def)
    qed
  qed
qed

section \<open>The frames of the formatter on the wire\<close>

lemma encode_words:
  "encode_str ''type'' = quoted ''type''"
  "encode_str ''message_start'' = quoted ''message_start''"
  "encode_str ''message'' = quoted ''message''"
  "encode_str ''id'' = quoted ''id''"
  "encode_str ''role'' = quoted ''role''"
  "encode_str ''assistant'' = quoted ''assistant''"
  "encode_str ''content'' = quoted ''content''"
  "encode_str ''model'' = quoted ''model''"
  "encode_str ''stop_reason'' = quoted ''stop_reason''"
  "encode_str ''stop_sequence'' = quoted ''stop_sequence''"
  "encode_str ''usage'' = quoted ''usage''"
  "encode_str ''input_tokens'' = quoted ''input_tokens''"
  "encode_str ''output_tokens'' = quoted ''output_tokens''"
  "encode_str ''content_block_start'' = quoted ''content_block_start''"
  "encode_str ''index'' = quoted ''index''"
  "encode_str ''content_block'' = quoted ''content_block''"
  "encode_str ''text'' = quoted ''text''"
  "encode_str [] = quoted []"
  "encode_str ''content_block_delta'' = quoted ''content_block_delta''"
  "encode_str ''delta'' = quoted ''delta''"
  "encode_str ''text_delta'' = quoted ''text_delta''"
  "encode_str ''content_block_stop'' = quoted ''content_block_stop''"
  "encode_str ''message_delta'' = quoted ''message_delta''"
  "encode_str ''message_stop'' = quoted ''message_stop''"
  "encode_str ''end_turn'' = quoted ''end_turn''"
  "encode_str ''cancelled'' = quoted ''cancelled''"
  "encode_str ''error'' = quoted ''error''"
  "encode_str ''internal_server_error'' = quoted ''internal_server_error''"
  by (simp_all add: encode_str_def escape_char_def)

lemma dec_int_zero: "dec_int 0 = ''0''"
  by (simp add: dec_int_def dec_nat.simps hexdigit_def)

lemma message_start_on_wire:
  "format_message_start message_id model ''assistant'' =
     message_start_wire (encode_str message_id) (encode_str model)"
  by (simp add: format_message_start_def format_data_only_def dict_get_def encode_words
        dec_int_zero)

lemma content_block_start_on_wire:
  "format_content_block_start 0 = content_block_start_wire"
  by (simp add: format_content_block_start_def format_data_only_def dict_get_def encode_words
        dec_int_zero)

lemma content_block_delta_on_wire:
  "format_content_block_delta text 0 = content_block_delta_wire (json_dumps text)"
  by (simp add: format_content_block_delta_def format_data_only_def dict_get_def encode_words
        dec_int_zero)

lemma content_block_stop_on_wire:
  "format_content_block_stop 0 = content_block_stop_wire"
  by (simp add: format_content_block_stop_def format_data_only_def dict_get_def encode_words
        dec_int_zero)

lemma message_delta_on_wire:
  "format_message_delta stop_reason stop_sequence =
     message_delta_wire (json_dumps stop_reason) (json_dumps stop_sequence)"
  by (simp add: format_message_delta_def format_data_only_def dict_get_def encode_words
        dec_int_zero)

lemma message_stop_on_wire:
  "format_message_stop = message_stop_wire"
  by (simp add: format_message_stop_def format_data_only_def dict_get_def encode_words)

lemma done_on_wire: "format_done = done_wire"
  by (simp add: format_done_def)

lemma error_on_wire:
  "format_error error_type message =
     ''event: unknown'' @ [nl] @ ''data: ''
     @ error_body_wire (encode_str error_type) (encode_str message) @ [nl, nl]"
  by (simp add: format_error_frame)

lemma hexdigit_inj:
  assumes "hexdigit m = hexdigit n" and "m < 16" and "n < 16"
  shows "m = n"
proof -
  have d: "distinct ''0123456789abcdef''" by simp
  have l: "length ''0123456789abcdef'' = 16" by simp
  from assms have "''0123456789abcdef'' ! m = ''0123456789abcdef'' ! n"
    by (simp add: hexdigit_def)
  with d l assms(2,3) show ?thesis
    by (metis nth_eq_iff_index_eq)
qed

lemma escape_u_inj:
  assumes "hexdigit (of_char a div 16) = hexdigit (of_char b div 16)"
    and "hexdigit (of_char a mod 16) = hexdigit (of_char b mod 16)"
  shows "a = b"
proof -
  have a: "(of_char a :: nat) < 256" and b: "(of_char b :: nat) < 256"
    by (rule nat_of_char_less_256)+
  have a16: "(of_char a :: nat) div 16 < 16"
    using a by (simp add: less_mult_imp_div_less)
  have b16: "(of_char b :: nat) div 16 < 16"
    using b by (simp add: less_mult_imp_div_less)
  from assms(1) a16 b16 have "(of_char a :: nat) div 16 = of_char b div 16"
    by (rule hexdigit_inj)
  moreover from assms(2) have "(of_char a :: nat) mod 16 = of_char b mod 16"
    by (rule hexdigit_inj) simp_all
  ultimately have "(of_char a :: nat) = of_char b"
    by (metis div_mult_mod_eq)
  then show ?thesis by simp
qed


lemma escape_char_nonempty: "escape_char c \<noteq> []"
  by (simp add: escape_char_def)

lemma escape_char_prefix_free:
  assumes "escape_char a @ xs = escape_char b @ ys"
  shows "a = b \<and> xs = ys"
  using assms
  by (auto simp: escape_char_def split: if_splits dest: escape_u_inj)

lemma escaped_inj:
  "concat (map escape_char s) = concat (map escape_char t) \<Longrightarrow> s = t"
proof (induction s arbitrary: t)
  case Nil
  then show ?case
    by (cases t) (simp_all add: escape_char_nonempty)
next
  case (Cons a s)
  show ?case
  proof (cases t)
    case Nil
    with Cons.prems show ?thesis
      by (simp add: escape_char_nonempty)
  next
    case (Cons b t')
    with Cons.prems have "escape_char a @ concat (map escape_char s) =
        escape_char b @ concat (map escape_char t')"
      by simp
    then have "a = b" and "concat (map escape_char s) = concat (map escape_char t')"
      using escape_char_prefix_free by blast+
    with Cons.IH Cons show ?thesis by simp
  qed
qed

lemma encode_str_inj: "encode_str s = encode_str t \<Longrightarrow> s = t"
  by (simp add: encode_str_def escaped_inj)

section \<open>The claims about the closing frames\<close>

lemmas on_wire =
  message_start_on_wire content_block_start_on_wire content_block_delta_on_wire
  content_block_stop_on_wire message_delta_on_wire message_stop_on_wire done_on_wire

lemma content_frames_on_wire:
  "content_frames texts = map (\<lambda>text. content_block_delta_wire (json_dumps text)) texts"
  by (simp add: content_frames_def content_block_delta_on_wire)

lemma error_frame_shape:
  "\<exists>event_type. nl \<notin> set event_type
     \<and> format_error error_type message =
         ''event: '' @ event_type @ [nl] @ ''data: ''
         @ error_body_wire (encode_str error_type) (encode_str message) @ [nl, nl]"
proof (intro exI conjI)
  show "nl \<notin> set ''unknown''" by simp
  show "format_error error_type message =
         ''event: '' @ ''unknown'' @ [nl] @ ''data: ''
         @ error_body_wire (encode_str error_type) (encode_str message) @ [nl, nl]"
    by (simp add: error_on_wire)
qed

lemma encode_examples:
  "encode_str ''Hello'' = quoted ''Hello''"
  "encode_str ''Hel'' = quoted ''Hel''"
  "encode_str ''lo'' = quoted ''lo''"
  "encode_str ''max_tokens'' = quoted ''max_tokens''"
  "encode_str ''boom'' = quoted ''boom''"
  by (simp_all add: encode_str_def escape_char_def)

text \<open>
  Counterexample for C9 as stated: the frame of \<^verbatim>\<open>format_error\<close> for the kind
  \<^verbatim>\<open>internal_server_error\<close> and the message \<^verbatim>\<open>boom\<close> is not the data-only frame
  around its JSON body: it starts with an \<^verbatim>\<open>event:\<close> line.
\<close>

theorem format_error_not_data_only:
  "format_error ''internal_server_error'' ''boom'' \<noteq>
     ''data: '' @ error_body_wire (quoted ''internal_server_error'') (quoted ''boom'') @ [nl, nl]
   \<and> take 7 (format_error ''internal_server_error'' ''boom'') = ''event: ''"
  by (simp add: error_on_wire)

text \<open>
  C9, as amended: \<^verbatim>\<open>format_error\<close> returns the frame that \<^verbatim>\<open>format_data_only\<close>
  builds, which is not data-only: an \<^verbatim>\<open>event:\<close> line, then the \<^verbatim>\<open>data:\<close> line with the
  JSON object whose field \<^verbatim>\<open>error\<close> holds the type and the message, then an empty line.
  The theorem does not say which event type the line carries: \<^verbatim>\<open>format_data_only\<close>
  reads it from the top level of the dictionary that \<^verbatim>\<open>StreamingError\<close> dumps, and that
  class is not among the sources.
\<close>

theorem error_frame_carries_event_line:
  "\<exists>event_type. nl \<notin> set event_type
     \<and> format_error error_type message =
         ''event: '' @ event_type @ [nl] @ ''data: ''
         @ error_body_wire (encode_str error_type) (encode_str message) @ [nl, nl]"
  by (rule error_frame_shape)

text \<open>
  C5: when the upstream raises a cancellation after chunks that the loop went past, the
  frames on the wire are \<^verbatim>\<open>message_start\<close>, \<^verbatim>\<open>content_block_start\<close>, one
  \<^verbatim>\<open>content_block_delta\<close> frame per text, a \<^verbatim>\<open>content_block_stop\<close> frame only if no
  content frame was yielded, the \<^verbatim>\<open>message_delta\<close> frame whose delta has the stop reason
  \<^verbatim>\<open>"cancelled"\<close> and a null stop sequence, \<^verbatim>\<open>message_stop\<close> and DONE; after these
  frames the generator raises the cancellation.
\<close>

theorem cancellation_closes_and_reraises:
  assumes "list_all passes chunks"
  shows "stream_claude_response (AsyncIterable chunks (Raise CancelledError)) message_id model =
    ([message_start_wire (encode_str message_id) (encode_str model), content_block_start_wire]
     @ map (\<lambda>text. content_block_delta_wire (json_dumps text)) (delta_texts chunks)
     @ (if delta_texts chunks = [] then [content_block_stop_wire] else [])
     @ [message_delta_wire (quoted ''cancelled'') ''null'', message_stop_wire, done_wire],
     Some CancelledError)"
  by (simp add: run_cancelled [OF assms] on_wire content_frames_on_wire encode_words)

text \<open>
  An instance: the message start chunk and one text chunk, then the cancellation.
\<close>

theorem cancellation_closes_and_reraises_witness:
  "list_all passes [start_chunk ''msg_123'', text_chunk ''Hello'']
   \<and> stream_claude_response
        (AsyncIterable [start_chunk ''msg_123'', text_chunk ''Hello''] (Raise CancelledError))
        ''msg_1'' ''claude'' =
      ([message_start_wire (quoted ''msg_1'') (quoted ''claude''), content_block_start_wire,
        content_block_delta_wire (quoted ''Hello''),
        message_delta_wire (quoted ''cancelled'') ''null'', message_stop_wire, done_wire],
       Some CancelledError)"
proof -
  have h: "list_all passes [start_chunk ''msg_123'', text_chunk ''Hello'']"
    by (simp add: passes_examples)
  have ids: "encode_str ''msg_1'' = quoted ''msg_1''" "encode_str ''claude'' = quoted ''claude''"
    by (simp_all add: encode_str_def escape_char_def)
  show ?thesis
    using h cancellation_closes_and_reraises [OF h, of "''msg_1''" "''claude''"]
    by (simp add: delta_texts_examples encode_examples ids)
qed

text \<open>
  Counterexample for C3 as stated: after a text chunk the upstream raises an exception
  with the message \<^verbatim>\<open>boom\<close>; the generator does not raise it.
\<close>

theorem upstream_exception_not_propagated:
  "snd (stream_claude_response
          (AsyncIterable [text_chunk ''Hello''] (Raise (Exception ''boom''))) ''msg_1'' ''claude'')
     \<noteq> Some (Exception ''boom'')"
proof -
  have h: "list_all passes [text_chunk ''Hello'']"
    by (simp add: passes_examples)
  show ?thesis by (simp add: run_exception [OF h])
qed

text \<open>
  C3, as amended: when the upstream raises an instance of \<^verbatim>\<open>Exception\<close> after chunks
  that the loop went past, the frames on the wire are \<^verbatim>\<open>message_start\<close>,
  \<^verbatim>\<open>content_block_start\<close>, the content frames, a \<^verbatim>\<open>content_block_stop\<close> frame only if
  no content frame was yielded, the \<^verbatim>\<open>message_delta\<close> frame whose delta has the stop reason
  \<^verbatim>\<open>"error"\<close> and a null stop sequence, \<^verbatim>\<open>message_stop\<close>, then the error frame, then
  DONE; the outer handler has caught the exception and the generator finishes without
  raising. The error frame has an event line and a body with the type
  \<^verbatim>\<open>internal_server_error\<close> and the message of the exception.
\<close>

theorem upstream_exception_closes_with_error_frame:
  assumes "list_all passes chunks"
  shows "stream_claude_response (AsyncIterable chunks (Raise (Exception msg))) message_id model =
    ([message_start_wire (encode_str message_id) (encode_str model), content_block_start_wire]
     @ map (\<lambda>text. content_block_delta_wire (json_dumps text)) (delta_texts chunks)
     @ (if delta_texts chunks = [] then [content_block_stop_wire] else [])
     @ [message_delta_wire (quoted ''error'') ''null'', message_stop_wire,
        format_error ''internal_server_error'' msg, done_wire],
     None)
   \<and> (\<exists>event_type. nl \<notin> set event_type
        \<and> format_error ''internal_server_error'' msg =
            ''event: '' @ event_type @ [nl] @ ''data: ''
            @ error_body_wire (quoted ''internal_server_error'') (encode_str msg) @ [nl, nl])"
proof
  show "stream_claude_response (AsyncIterable chunks (Raise (Exception msg))) message_id model =
    ([message_start_wire (encode_str message_id) (encode_str model), content_block_start_wire]
     @ map (\<lambda>text. content_block_delta_wire (json_dumps text)) (delta_texts chunks)
     @ (if delta_texts chunks = [] then [content_block_stop_wire] else [])
     @ [message_delta_wire (quoted ''error'') ''null'', message_stop_wire,
        format_error ''internal_server_error'' msg, done_wire],
     None)"
    by (simp add: run_exception [OF assms] on_wire content_frames_on_wire encode_words)
  show "\<exists>event_type. nl \<notin> set event_type
        \<and> format_error ''internal_server_error'' msg =
            ''event: '' @ event_type @ [nl] @ ''data: ''
            @ error_body_wire (quoted ''internal_server_error'') (encode_str msg) @ [nl, nl]"
    using error_frame_shape [of "''internal_server_error''" msg]
    by (simp only: encode_words)
qed

text \<open>
  An instance: the message start chunk alone, then the exception.
\<close>

theorem upstream_exception_closes_with_error_frame_witness:
  "list_all passes [start_chunk ''msg_123'']
   \<and> stream_claude_response
        (AsyncIterable [start_chunk ''msg_123''] (Raise (Exception ''boom'')))
        ''msg_1'' ''claude'' =
      ([message_start_wire (quoted ''msg_1'') (quoted ''claude''), content_block_start_wire,
        content_block_stop_wire,
        message_delta_wire (quoted ''error'') ''null'', message_stop_wire,
        format_error ''internal_server_error'' ''boom'', done_wire],
       None)
   \<and> sublist (error_body_wire (quoted ''internal_server_error'') (quoted ''boom''))
        (format_error ''internal_server_error'' ''boom'')"
proof -
  have h: "list_all passes [start_chunk ''msg_123'']"
    by (simp add: passes_examples)
  have ids: "encode_str ''msg_1'' = quoted ''msg_1''" "encode_str ''claude'' = quoted ''claude''"
    by (simp_all add: encode_str_def escape_char_def)
  from upstream_exception_closes_with_error_frame [OF h, of "''boom''" "''msg_1''" "''claude''"]
  have run: "stream_claude_response
        (AsyncIterable [start_chunk ''msg_123''] (Raise (Exception ''boom'')))
        ''msg_1'' ''claude'' =
      ([message_start_wire (quoted ''msg_1'') (quoted ''claude''), content_block_start_wire,
        content_block_stop_wire,
        message_delta_wire (quoted ''error'') ''null'', message_stop_wire,
        format_error ''internal_server_error'' ''boom'', done_wire],
       None)"
    and "\<exists>event_type. nl \<notin> set event_type
        \<and> format_error ''internal_server_error'' ''boom'' =
            ''event: '' @ event_type @ [nl] @ ''data: ''
            @ error_body_wire (quoted ''internal_server_error'') (encode_str ''boom'') @ [nl, nl]"
    by (simp_all add: delta_texts_examples ids)
  then obtain event_type where "format_error ''internal_server_error'' ''boom'' =
            (''event: '' @ event_type @ [nl] @ ''data: '')
            @ error_body_wire (quoted ''internal_server_error'') (quoted ''boom'') @ [nl, nl]"
    by (auto simp: encode_examples)
  then have "sublist (error_body_wire (quoted ''internal_server_error'') (quoted ''boom''))
        (format_error ''internal_server_error'' ''boom'')"
    by (metis sublist_appendI)
  with h run show ?thesis by (intro conjI)
qed

text \<open>
  Counterexample for C4 as stated: the upstream of the test suite's valid iterator (a
  message start chunk, one text chunk, no \<^verbatim>\<open>message_delta\<close> chunk) is exhausted and the
  frames do not end with \<^verbatim>\<open>content_block_stop\<close>, \<^verbatim>\<open>message_delta\<close>,
  \<^verbatim>\<open>message_stop\<close> and DONE.
\<close>

theorem exhaustion_after_content_leaves_message_open:
  "\<not> suffix [content_block_stop_wire, message_delta_wire (quoted ''end_turn'') ''null'',
             message_stop_wire, done_wire]
      (fst (stream_claude_response
              (AsyncIterable [start_chunk ''msg_123'', text_chunk ''Hello world''] StopAsyncIteration)
              ''msg_1'' ''claude''))"
proof -
  have h: "list_all passes [start_chunk ''msg_123'', text_chunk ''Hello world'']"
    by (simp add: passes_examples)
  show ?thesis
    by (simp add: run_exhausted [OF h] delta_texts_examples content_frames_def suffix_Cons
          on_wire)
qed

text \<open>
  C4, as amended: when the upstream is exhausted after chunks that the loop went past
  (none of them a \<^verbatim>\<open>message_delta\<close> chunk) and no content frame was yielded, the frames
  on the wire are \<^verbatim>\<open>message_start\<close>, \<^verbatim>\<open>content_block_start\<close>,
  \<^verbatim>\<open>content_block_stop\<close>, the \<^verbatim>\<open>message_delta\<close> frame whose delta has the stop reason
  \<^verbatim>\<open>"end_turn"\<close> and a null stop sequence, \<^verbatim>\<open>message_stop\<close> and DONE, and the
  generator finishes.
\<close>

theorem exhaustion_without_content_closes_message:
  assumes "list_all passes chunks" and "delta_texts chunks = []"
  shows "stream_claude_response (AsyncIterable chunks StopAsyncIteration) message_id model =
    ([message_start_wire (encode_str message_id) (encode_str model), content_block_start_wire,
      content_block_stop_wire, message_delta_wire (quoted ''end_turn'') ''null'',
      message_stop_wire, done_wire],
     None)"
  by (simp add: run_exhausted [OF assms(1)] assms(2) on_wire content_frames_def encode_words)

text \<open>
  An instance: the message start chunk and a text chunk with the empty text.
\<close>

theorem exhaustion_without_content_closes_message_witness:
  "list_all passes [start_chunk ''msg_123'', text_chunk '''']
   \<and> delta_texts [start_chunk ''msg_123'', text_chunk ''''] = []
   \<and> stream_claude_response
        (AsyncIterable [start_chunk ''msg_123'', text_chunk ''''] StopAsyncIteration)
        ''msg_1'' ''claude'' =
      ([message_start_wire (quoted ''msg_1'') (quoted ''claude''), content_block_start_wire,
        content_block_stop_wire, message_delta_wire (quoted ''end_turn'') ''null'',
        message_stop_wire, done_wire],
       None)"
proof -
  have h: "list_all passes [start_chunk ''msg_123'', text_chunk '''']"
    by (simp add: passes_examples)
  have n: "delta_texts [start_chunk ''msg_123'', text_chunk ''''] = []"
    by (simp add: delta_texts_examples)
  have ids: "encode_str ''msg_1'' = quoted ''msg_1''" "encode_str ''claude'' = quoted ''claude''"
    by (simp_all add: encode_str_def escape_char_def)
  show ?thesis
    using h n exhaustion_without_content_closes_message [OF h n, of "''msg_1''" "''claude''"] by (simp add: ids)
qed

lemma delta_frames_on_wire:
  "delta_frames (map (\<lambda>text. content_block_delta_wire (json_dumps text)) texts) =
     map (\<lambda>text. content_block_delta_wire (json_dumps text)) texts"
  using delta_frames_content [of texts] by (simp only: content_frames_on_wire)

lemma content_frame_determines_text:
  "inj (\<lambda>text. content_block_delta_wire (encode_str text))"
  by (rule injI) (simp add: encode_str_inj)

text \<open>
  Counterexample for C8 as stated: of two content chunks with the texts
  \<^verbatim>\<open>Hello\<close> and the empty text, the run has one content frame, with \<^verbatim>\<open>"Hello"\<close>,
  and not the frames of both texts.
\<close>

theorem empty_text_delta_dropped:
  "delta_frames (fst (stream_claude_response
       (AsyncIterable [text_chunk ''Hello'', text_chunk ''''] StopAsyncIteration)
       ''msg_1'' ''claude''))
     = [content_block_delta_wire (quoted ''Hello'')]
   \<and> delta_frames (fst (stream_claude_response
       (AsyncIterable [text_chunk ''Hello'', text_chunk ''''] StopAsyncIteration)
       ''msg_1'' ''claude''))
     \<noteq> [content_block_delta_wire (quoted ''Hello''), content_block_delta_wire (quoted [])]"
proof -
  have h: "list_all passes [text_chunk ''Hello'', text_chunk '''']"
    by (simp add: passes_examples)
  have "delta_frames (fst (stream_claude_response
       (AsyncIterable [text_chunk ''Hello'', text_chunk ''''] StopAsyncIteration)
       ''msg_1'' ''claude''))
     = [content_block_delta_wire (quoted ''Hello'')]"
  proof -
    have "delta_frames (fst (stream_claude_response
       (AsyncIterable [text_chunk ''Hello'', text_chunk ''''] StopAsyncIteration)
       ''msg_1'' ''claude''))
      = content_frames (delta_texts [text_chunk ''Hello'', text_chunk ''''])"
      by (simp add: run_exhausted [OF h] delta_frames_append delta_frames_content
            delta_frames_others)
    also have "\<dots> = [content_block_delta_wire (quoted ''Hello'')]"
      by (simp add: delta_texts_examples content_frames_on_wire encode_examples)
    finally show ?thesis .
  qed
  then show ?thesis by simp
qed

text \<open>
  C8, as amended: when every chunk of the upstream is a \<^verbatim>\<open>content_block_delta\<close>
  chunk that carries a text, the content frames of the run are, on the wire, the frames
  whose delta holds the JSON encoding of the texts that are not empty (true for
  \<^verbatim>\<open>if text:\<close>), one frame per such text, in the order of the chunks; this holds however
  the upstream ends. Two different strings never give the same frame.
\<close>

theorem content_frames_carry_nonempty_texts:
  assumes "list_all content_chunk chunks"
  shows "delta_frames (fst (stream_claude_response (AsyncIterable chunks e) message_id model)) =
      map (\<lambda>text. content_block_delta_wire (json_dumps text))
        (filter truthy (map chunk_text chunks))
    \<and> inj (\<lambda>text. content_block_delta_wire (json_dumps (JStr text)))"
proof
  have past: "list_all passes chunks"
    using assms by (rule content_chunks_pass)
  have texts: "delta_texts chunks = filter truthy (map chunk_text chunks)"
    using assms by (rule content_chunks_texts)
  have "delta_frames (fst (stream_claude_response (AsyncIterable chunks e) message_id model)) =
    content_frames (delta_texts chunks)"
  proof (cases e)
    case StopAsyncIteration
    then show ?thesis
      by (simp add: run_exhausted [OF past] delta_frames_append delta_frames_content
            delta_frames_others)
  next
    case (Raise x)
    then show ?thesis
      by (cases x)
         (simp_all add: run_cancelled [OF past] run_exception [OF past]
            run_base_exception [OF past] delta_frames_append delta_frames_content
            delta_frames_others)
  qed
  then show "delta_frames (fst (stream_claude_response (AsyncIterable chunks e) message_id model)) =
      map (\<lambda>text. content_block_delta_wire (json_dumps text))
        (filter truthy (map chunk_text chunks))"
    by (simp only: texts content_frames_on_wire)
  show "inj (\<lambda>text. content_block_delta_wire (json_dumps (JStr text)))"
    using content_frame_determines_text by simp
qed

text \<open>
  An instance: three text chunks, the second with the empty text.
\<close>

theorem content_frames_carry_nonempty_texts_witness:
  "list_all content_chunk [text_chunk ''Hel'', text_chunk '''', text_chunk ''lo'']
   \<and> delta_frames (fst (stream_claude_response
        (AsyncIterable [text_chunk ''Hel'', text_chunk '''', text_chunk ''lo''] StopAsyncIteration)
        ''msg_1'' ''claude'')) =
      [content_block_delta_wire (quoted ''Hel''), content_block_delta_wire (quoted ''lo'')]"
proof -
  have h: "list_all content_chunk [text_chunk ''Hel'', text_chunk '''', text_chunk ''lo'']"
    by (simp add: passes_examples)
  have t: "chunk_text (text_chunk s) = JStr s" for s
    by (simp add: chunk_reading example_chunks)
  from content_frames_carry_nonempty_texts [OF h, of StopAsyncIteration "''msg_1''" "''claude''"]
  have "delta_frames (fst (stream_claude_response
        (AsyncIterable [text_chunk ''Hel'', text_chunk '''', text_chunk ''lo''] StopAsyncIteration)
        ''msg_1'' ''claude'')) =
      map (\<lambda>text. content_block_delta_wire (json_dumps text))
        (filter truthy (map chunk_text [text_chunk ''Hel'', text_chunk '''', text_chunk ''lo'']))"
    by (rule conjunct1)
  then have "delta_frames (fst (stream_claude_response
        (AsyncIterable [text_chunk ''Hel'', text_chunk '''', text_chunk ''lo''] StopAsyncIteration)
        ''msg_1'' ''claude'')) =
      [content_block_delta_wire (quoted ''Hel''), content_block_delta_wire (quoted ''lo'')]"
    by (simp add: t encode_examples)
  with h show ?thesis by (rule conjI)
qed

text \<open>
  Counterexample for C6 as stated: a \<^verbatim>\<open>message_delta\<close> chunk whose delta is
  \<^verbatim>\<open>None\<close> has no stop reason, so the claim gives its frame the default
  \<^verbatim>\<open>"end_turn"\<close>. The loop yields \<^verbatim>\<open>content_block_stop\<close>, then \<^verbatim>\<open>.get\<close> raises
  \<^verbatim>\<open>AttributeError\<close> and the handlers yield a \<^verbatim>\<open>message_delta\<close> frame with the stop
  reason \<^verbatim>\<open>"error"\<close>, \<^verbatim>\<open>message_stop\<close>, the error frame and DONE.
\<close>

theorem non_dict_delta_takes_error_path:
  "fst (stream_claude_response
         (AsyncIterable
            [text_chunk ''Hello'', JObj [(''type'', JStr ''message_delta''), (''delta'', JNull)]]
            StopAsyncIteration)
         ''msg_1'' ''claude'') =
     [message_start_wire (quoted ''msg_1'') (quoted ''claude''), content_block_start_wire,
      content_block_delta_wire (quoted ''Hello''), content_block_stop_wire,
      message_delta_wire (quoted ''error'') ''null'', message_stop_wire,
      format_error ''internal_server_error''
        ([sq] @ ''NoneType'' @ [sq] @ '' object has no attribute '' @ [sq] @ ''get'' @ [sq]),
      done_wire]
   \<and> \<not> prefix
       [message_start_wire (quoted ''msg_1'') (quoted ''claude''), content_block_start_wire,
        content_block_delta_wire (quoted ''Hello''), content_block_stop_wire,
        message_delta_wire (quoted ''end_turn'') ''null'', message_stop_wire]
       (fst (stream_claude_response
         (AsyncIterable
            [text_chunk ''Hello'', JObj [(''type'', JStr ''message_delta''), (''delta'', JNull)]]
            StopAsyncIteration)
         ''msg_1'' ''claude''))"
proof -
  let ?bad = "JObj [(''type'', JStr ''message_delta''), (''delta'', JNull)]"
  have h: "list_all passes [text_chunk ''Hello'']"
    by (simp add: passes_examples)
  have m: "is_message_delta ?bad" and d: "\<not> is_dict (chunk_delta ?bad)"
    by (simp_all add: chunk_reading)
  have t: "py_type_name (chunk_delta ?bad) = ''NoneType''"
    by (simp add: chunk_reading)
  have ids: "encode_str ''msg_1'' = quoted ''msg_1''" "encode_str ''claude'' = quoted ''claude''"
    by (simp_all add: encode_str_def escape_char_def)
  have run: "fst (stream_claude_response
         (AsyncIterable ([text_chunk ''Hello''] @ ?bad # []) StopAsyncIteration)
         ''msg_1'' ''claude'') =
     [message_start_wire (quoted ''msg_1'') (quoted ''claude''), content_block_start_wire,
      content_block_delta_wire (quoted ''Hello''), content_block_stop_wire,
      message_delta_wire (quoted ''error'') ''null'', message_stop_wire,
      format_error ''internal_server_error''
        ([sq] @ ''NoneType'' @ [sq] @ '' object has no attribute '' @ [sq] @ ''get'' @ [sq]),
      done_wire]"
    by (subst run_message_delta_raises [OF h m d])
       (simp add: t delta_texts_examples on_wire content_frames_on_wire encode_words
          encode_examples ids)
  then show ?thesis by simp
qed

text \<open>
  C6, as amended: when the loop reaches a \<^verbatim>\<open>message_delta\<close> chunk whose delta is
  absent or a dictionary, the frames on the wire after the content frames yielded so far
  are \<^verbatim>\<open>content_block_stop\<close>, the \<^verbatim>\<open>message_delta\<close> frame whose delta holds the JSON
  encoding of the chunk's stop reason (\<^verbatim>\<open>"end_turn"\<close> when absent) and of its stop
  sequence (null when absent), and \<^verbatim>\<open>message_stop\<close>. The chunks after it and the ending
  of the upstream do not matter: the run is the run on the upstream cut after that chunk.
  When a content frame was yielded before, only DONE follows and the generator finishes.
  Two different stop reasons that are strings never give the same frame.
\<close>

theorem message_delta_closes_and_stops_draining:
  assumes "list_all passes pre" and "is_message_delta c" and "is_dict (chunk_delta c)"
  shows "prefix
      ([message_start_wire (encode_str message_id) (encode_str model), content_block_start_wire]
       @ map (\<lambda>text. content_block_delta_wire (json_dumps text)) (delta_texts pre)
       @ [content_block_stop_wire,
          message_delta_wire
            (json_dumps (delta_field c ''stop_reason'' (JStr ''end_turn'')))
            (json_dumps (delta_field c ''stop_sequence'' JNull)),
          message_stop_wire])
      (fst (stream_claude_response (AsyncIterable (pre @ c # rest) e) message_id model))
    \<and> stream_claude_response (AsyncIterable (pre @ c # rest) e) message_id model =
      stream_claude_response (AsyncIterable (pre @ [c]) StopAsyncIteration) message_id model
    \<and> (delta_texts pre \<noteq> [] \<longrightarrow>
       stream_claude_response (AsyncIterable (pre @ c # rest) e) message_id model =
         ([message_start_wire (encode_str message_id) (encode_str model), content_block_start_wire]
          @ map (\<lambda>text. content_block_delta_wire (json_dumps text)) (delta_texts pre)
          @ [content_block_stop_wire,
             message_delta_wire
               (json_dumps (delta_field c ''stop_reason'' (JStr ''end_turn'')))
               (json_dumps (delta_field c ''stop_sequence'' JNull)),
             message_stop_wire, done_wire],
          None))
    \<and> inj (\<lambda>stop_reason. message_delta_wire (json_dumps (JStr stop_reason)) ''null'')"
proof (intro conjI impI)
  show "prefix
      ([message_start_wire (encode_str message_id) (encode_str model), content_block_start_wire]
       @ map (\<lambda>text. content_block_delta_wire (json_dumps text)) (delta_texts pre)
       @ [content_block_stop_wire,
          message_delta_wire
            (json_dumps (delta_field c ''stop_reason'' (JStr ''end_turn'')))
            (json_dumps (delta_field c ''stop_sequence'' JNull)),
          message_stop_wire])
      (fst (stream_claude_response (AsyncIterable (pre @ c # rest) e) message_id model))"
    by (simp add: run_message_delta [OF assms] on_wire content_frames_on_wire)
  show "stream_claude_response (AsyncIterable (pre @ c # rest) e) message_id model =
      stream_claude_response (AsyncIterable (pre @ [c]) StopAsyncIteration) message_id model"
    by (simp only: run_message_delta [OF assms])
  show "inj (\<lambda>stop_reason. message_delta_wire (json_dumps (JStr stop_reason)) ''null'')"
    by (rule injI) (simp add: encode_str_inj)
next
  assume "delta_texts pre \<noteq> []"
  then show "stream_claude_response (AsyncIterable (pre @ c # rest) e) message_id model =
         ([message_start_wire (encode_str message_id) (encode_str model), content_block_start_wire]
          @ map (\<lambda>text. content_block_delta_wire (json_dumps text)) (delta_texts pre)
          @ [content_block_stop_wire,
             message_delta_wire
               (json_dumps (delta_field c ''stop_reason'' (JStr ''end_turn'')))
               (json_dumps (delta_field c ''stop_sequence'' JNull)),
             message_stop_wire, done_wire],
          None)"
    by (simp add: run_message_delta [OF assms] on_wire content_frames_on_wire)
qed

text \<open>
  An instance: the stream of the test suite with the stop reason \<^verbatim>\<open>max_tokens\<close>,
  followed by a chunk and an exception that are never reached.
\<close>

theorem message_delta_closes_and_stops_draining_witness:
  "list_all passes [start_chunk ''msg_123'', text_chunk ''Hello'']
   \<and> is_message_delta (stop_chunk ''max_tokens'')
   \<and> is_dict (chunk_delta (stop_chunk ''max_tokens''))
   \<and> delta_texts [start_chunk ''msg_123'', text_chunk ''Hello''] \<noteq> []
   \<and> stream_claude_response
        (AsyncIterable ([start_chunk ''msg_123'', text_chunk ''Hello'']
                        @ stop_chunk ''max_tokens'' # [text_chunk ''late''])
           (Raise (Exception ''late'')))
        ''msg_1'' ''claude'' =
      ([message_start_wire (quoted ''msg_1'') (quoted ''claude''), content_block_start_wire,
        content_block_delta_wire (quoted ''Hello''),
        content_block_stop_wire,
        message_delta_wire (quoted ''max_tokens'') ''null'',
        message_stop_wire, done_wire],
       None)"
proof -
  have h: "list_all passes [start_chunk ''msg_123'', text_chunk ''Hello'']"
    by (simp add: passes_examples)
  have m: "is_message_delta (stop_chunk ''max_tokens'')"
    and d: "is_dict (chunk_delta (stop_chunk ''max_tokens''))"
    by (rule passes_examples)+
  have n: "delta_texts [start_chunk ''msg_123'', text_chunk ''Hello''] \<noteq> []"
    by (simp add: delta_texts_examples)
  have ids: "encode_str ''msg_1'' = quoted ''msg_1''" "encode_str ''claude'' = quoted ''claude''"
    by (simp_all add: encode_str_def escape_char_def)
  from message_delta_closes_and_stops_draining [OF h m d, of "''msg_1''" "''claude''" "[text_chunk ''late'']"
        "Raise (Exception ''late'')"]
  have "delta_texts [start_chunk ''msg_123'', text_chunk ''Hello''] \<noteq> [] \<longrightarrow>
      stream_claude_response
        (AsyncIterable ([start_chunk ''msg_123'', text_chunk ''Hello'']
                        @ stop_chunk ''max_tokens'' # [text_chunk ''late''])
           (Raise (Exception ''late'')))
        ''msg_1'' ''claude'' =
      ([message_start_wire (encode_str ''msg_1'') (encode_str ''claude''), content_block_start_wire]
       @ map (\<lambda>text. content_block_delta_wire (json_dumps text))
           (delta_texts [start_chunk ''msg_123'', text_chunk ''Hello''])
       @ [content_block_stop_wire,
          message_delta_wire
            (json_dumps (delta_field (stop_chunk ''max_tokens'') ''stop_reason'' (JStr ''end_turn'')))
            (json_dumps (delta_field (stop_chunk ''max_tokens'') ''stop_sequence'' JNull)),
          message_stop_wire, done_wire],
       None)"
    by (elim conjE)
  with n have "stream_claude_response
        (AsyncIterable ([start_chunk ''msg_123'', text_chunk ''Hello'']
                        @ stop_chunk ''max_tokens'' # [text_chunk ''late''])
           (Raise (Exception ''late'')))
        ''msg_1'' ''claude'' =
      ([message_start_wire (encode_str ''msg_1'') (encode_str ''claude''), content_block_start_wire]
       @ map (\<lambda>text. content_block_delta_wire (json_dumps text))
           (delta_texts [start_chunk ''msg_123'', text_chunk ''Hello''])
       @ [content_block_stop_wire,
          message_delta_wire
            (json_dumps (delta_field (stop_chunk ''max_tokens'') ''stop_reason'' (JStr ''end_turn'')))
            (json_dumps (delta_field (stop_chunk ''max_tokens'') ''stop_sequence'' JNull)),
          message_stop_wire, done_wire],
       None)"
    by (rule rev_mp)
  then have "stream_claude_response
        (AsyncIterable ([start_chunk ''msg_123'', text_chunk ''Hello'']
                        @ stop_chunk ''max_tokens'' # [text_chunk ''late''])
           (Raise (Exception ''late'')))
        ''msg_1'' ''claude'' =
      ([message_start_wire (quoted ''msg_1'') (quoted ''claude''), content_block_start_wire,
        content_block_delta_wire (quoted ''Hello''),
        content_block_stop_wire,
        message_delta_wire (quoted ''max_tokens'') ''null'',
        message_stop_wire, done_wire],
       None)"
    by (simp add: delta_texts_examples delta_field_stop_chunk encode_examples ids)
  with h m d n show ?thesis by (intro conjI)
qed

section \<open>The claim about the order of the frames\<close>

lemma all_passed:
  "list_all passes chunks \<Longrightarrow>
   takeWhile passes chunks = chunks \<and> dropWhile passes chunks = []"
  by (simp add: list_all_iff)

lemma split_at_stop:
  "list_all passes pre \<Longrightarrow> \<not> passes c \<Longrightarrow>
   takeWhile passes (pre @ c # rest) = pre \<and> dropWhile passes (pre @ c # rest) = c # rest"
  by (induction pre) simp_all

lemma events_of_run:
  "map frame_event
     ([format_message_start i m r, format_content_block_start k] @ content_frames texts @ tail) =
   opening_events @ content_events (length texts) @ map frame_event tail"
  by (simp add: frame_events events_content_frames)

lemma not_grammar_without_stop:
  "0 < length texts \<Longrightarrow>
   \<not> follows_grammar
     ([format_message_start i m r, format_content_block_start k] @ content_frames texts
      @ [format_message_delta sr ss, format_message_stop, format_done])"
proof -
  assume "0 < length texts"
  have "count_list (opening_events @ content_events (length texts)
          @ [Some ''message_delta'', Some ''message_stop'']) (Some ''content_block_delta'')
        = length texts"
    using count_content_events [of "length texts" "[Some ''message_delta'', Some ''message_stop'']"]
    by simp
  then show ?thesis
    by (simp add: follows_grammar_def grammar_prefix_def lifecycle_grammar_def butlast_append
          frame_events events_content_frames)
qed

text \<open>
  C1, as amended: when no \<^verbatim>\<open>message_delta\<close> chunk is reached before the first content
  frame, the last frame is DONE and the events of the frames are \<^verbatim>\<open>message_start\<close>,
  \<^verbatim>\<open>content_block_start\<close>, one \<^verbatim>\<open>content_block_delta\<close> for each of the \<open>n\<close> texts of
  the chunks that the loop went past, then a tail, then the one frame without an event
  line. The tail depends on how the loop is left.
  \<^item> Upstream exhausted: \<^verbatim>\<open>content_block_stop\<close>, \<^verbatim>\<open>message_delta\<close>, \<^verbatim>\<open>message_stop\<close>
    if \<open>n = 0\<close>, nothing otherwise.
  \<^item> A \<^verbatim>\<open>message_delta\<close> chunk with a delta that is absent or a dictionary (then
    \<open>n > 0\<close>): \<^verbatim>\<open>content_block_stop\<close>, \<^verbatim>\<open>message_delta\<close>, \<^verbatim>\<open>message_stop\<close>.
  \<^item> Cancellation: \<^verbatim>\<open>content_block_stop\<close> only if \<open>n = 0\<close>, then \<^verbatim>\<open>message_delta\<close>,
    \<^verbatim>\<open>message_stop\<close>.
  \<^item> An \<^verbatim>\<open>Exception\<close> of the upstream, or a content chunk whose delta is not a
    dictionary: as for a cancellation, then the error frame.
  \<^item> A \<^verbatim>\<open>message_delta\<close> chunk whose delta is not a dictionary (then \<open>n > 0\<close>):
    \<^verbatim>\<open>content_block_stop\<close>, \<^verbatim>\<open>message_delta\<close>, \<^verbatim>\<open>message_stop\<close>, then the error frame.
  \<^item> Another \<^verbatim>\<open>BaseException\<close>: nothing.
  The frames before DONE are a prefix of the grammar in the first two cases and the last,
  and after a cancellation exactly when \<open>n = 0\<close>.
\<close>

theorem lifecycle_frames_when_content_precedes_stop:
  assumes "\<not> message_delta_before_content chunks"
  shows
    "(let n = length (delta_texts (takeWhile passes chunks));
          frames = fst (stream_claude_response (AsyncIterable chunks e) message_id model);
          events = map frame_event frames
      in last frames = done_wire \<and>
         (case dropWhile passes chunks of
            [] \<Rightarrow>
              (case e of
                 StopAsyncIteration \<Rightarrow>
                   events = opening_events @ content_events n
                            @ (if n = 0 then closing_events else []) @ [None]
                   \<and> follows_grammar frames
               | Raise CancelledError \<Rightarrow>
                   events = opening_events @ content_events n
                            @ (if n = 0 then [Some ''content_block_stop''] else [])
                            @ [Some ''message_delta'', Some ''message_stop'', None]
                   \<and> (follows_grammar frames \<longleftrightarrow> n = 0)
               | Raise (Exception msg) \<Rightarrow>
                   events = opening_events @ content_events n
                            @ (if n = 0 then [Some ''content_block_stop''] else [])
                            @ [Some ''message_delta'', Some ''message_stop'',
                               frame_event (format_error ''internal_server_error'' msg), None]
               | Raise (BaseException msg) \<Rightarrow>
                   events = opening_events @ content_events n @ [None]
                   \<and> follows_grammar frames)
          | c # rest \<Rightarrow>
              if is_message_delta c then
                0 < n \<and>
                (if is_dict (chunk_delta c)
                 then events = opening_events @ content_events n @ closing_events @ [None]
                      \<and> follows_grammar frames
                 else \<exists>msg. events = opening_events @ content_events n @ closing_events
                        @ [frame_event (format_error ''internal_server_error'' msg), None])
              else
                (\<exists>msg. events = opening_events @ content_events n
                        @ (if n = 0 then [Some ''content_block_stop''] else [])
                        @ [Some ''message_delta'', Some ''message_stop'',
                           frame_event (format_error ''internal_server_error'' msg), None])))"
proof (cases chunks rule: chunks_cases)
  case past
  note tw = all_passed [OF past]
  have empty: "(length (delta_texts chunks) = 0) = (delta_texts chunks = [])"
    by simp
  show ?thesis
  proof (cases e)
    case StopAsyncIteration
    have g: "follows_grammar
        (fst (stream_claude_response (AsyncIterable chunks StopAsyncIteration) message_id model))"
    proof (cases "delta_texts chunks = []")
      case True
      then show ?thesis
        using follows_grammar_closed [of message_id model "''assistant''" 0 "[]" 0
          "JStr ''end_turn''" JNull]
        by (simp add: run_exhausted [OF past] content_frames_def)
    next
      case False
      then show ?thesis
        using follows_grammar_open [of message_id model "''assistant''" 0 "delta_texts chunks"]
        by (simp add: run_exhausted [OF past])
    qed
    have ev: "map frame_event
        (fst (stream_claude_response (AsyncIterable chunks StopAsyncIteration) message_id model)) =
        opening_events @ content_events (length (delta_texts chunks))
        @ (if delta_texts chunks = [] then closing_events else []) @ [None]"
      using events_of_run [of message_id model "''assistant''" 0 "delta_texts chunks"]
      by (simp add: run_exhausted [OF past] frame_events)
    have l: "last
        (fst (stream_claude_response (AsyncIterable chunks StopAsyncIteration) message_id model)) =
        done_wire"
      by (simp add: run_exhausted [OF past] format_done_def)
    show ?thesis
      using g ev l by (simp add: Let_def tw StopAsyncIteration empty del: replicate.simps)
  next
    case (Raise x)
    show ?thesis
    proof (cases x)
      case CancelledError
      have g: "follows_grammar
          (fst (stream_claude_response (AsyncIterable chunks (Raise CancelledError)) message_id model))
          \<longleftrightarrow> delta_texts chunks = []"
      proof (cases "delta_texts chunks = []")
        case True
        then show ?thesis
          using follows_grammar_closed [of message_id model "''assistant''" 0 "[]" 0
            "JStr ''cancelled''" JNull]
          by (simp add: run_cancelled [OF past] content_frames_def)
      next
        case False
        then show ?thesis
          using not_grammar_without_stop [of "delta_texts chunks" message_id model "''assistant''" 0
            "JStr ''cancelled''" JNull]
          by (simp add: run_cancelled [OF past])
      qed
      have ev: "map frame_event
          (fst (stream_claude_response (AsyncIterable chunks (Raise CancelledError)) message_id model)) =
          opening_events @ content_events (length (delta_texts chunks))
          @ (if delta_texts chunks = [] then [Some ''content_block_stop''] else [])
          @ [Some ''message_delta'', Some ''message_stop'', None]"
        using events_of_run [of message_id model "''assistant''" 0 "delta_texts chunks"]
        by (simp add: run_cancelled [OF past] frame_events)
      have l: "last
          (fst (stream_claude_response (AsyncIterable chunks (Raise CancelledError)) message_id model)) =
          done_wire"
        by (simp add: run_cancelled [OF past] format_done_def)
      show ?thesis
        using g ev l by (simp add: Let_def tw Raise CancelledError empty del: replicate.simps)
    next
      case (Exception msg)
      have ev: "map frame_event
          (fst (stream_claude_response (AsyncIterable chunks (Raise (Exception msg))) message_id model)) =
          opening_events @ content_events (length (delta_texts chunks))
          @ (if delta_texts chunks = [] then [Some ''content_block_stop''] else [])
          @ [Some ''message_delta'', Some ''message_stop'',
             frame_event (format_error ''internal_server_error'' msg), None]"
        using events_of_run [of message_id model "''assistant''" 0 "delta_texts chunks"]
        by (simp add: run_exception [OF past] frame_event_content_block_stop
              frame_event_message_delta frame_event_message_stop frame_event_done)
      have l: "last
          (fst (stream_claude_response (AsyncIterable chunks (Raise (Exception msg))) message_id model)) =
          done_wire"
        by (simp add: run_exception [OF past] format_done_def)
      show ?thesis
        using ev l by (simp add: Let_def tw Raise Exception empty del: replicate.simps)
    next
      case (BaseException msg)
      have g: "follows_grammar
          (fst (stream_claude_response (AsyncIterable chunks (Raise (BaseException msg))) message_id model))"
        using follows_grammar_open [of message_id model "''assistant''" 0 "delta_texts chunks"]
        by (simp add: run_base_exception [OF past])
      have ev: "map frame_event
          (fst (stream_claude_response (AsyncIterable chunks (Raise (BaseException msg))) message_id model)) =
          opening_events @ content_events (length (delta_texts chunks)) @ [None]"
        using events_of_run [of message_id model "''assistant''" 0 "delta_texts chunks"]
        by (simp add: run_base_exception [OF past] frame_events)
      have l: "last
          (fst (stream_claude_response (AsyncIterable chunks (Raise (BaseException msg))) message_id model)) =
          done_wire"
        by (simp add: run_base_exception [OF past] format_done_def)
      show ?thesis
        using g ev l by (simp add: Let_def tw Raise BaseException del: replicate.simps)
    qed
  qed
next
  case (stop pre c rest)
  have "\<not> passes c"
    using stop(3) by (simp add: passes_def)
  note sp = split_at_stop [OF stop(2) this, of rest]
  from assms stop have content: "delta_texts pre \<noteq> []"
    by (simp add: message_delta_before_content_past)
  have g: "follows_grammar
      (fst (stream_claude_response (AsyncIterable (pre @ c # rest) e) message_id model))"
    using follows_grammar_closed [of message_id model "''assistant''" 0 "delta_texts pre" 0]
    by (simp add: run_message_delta [OF stop(2-4)] content)
  have ev: "map frame_event
      (fst (stream_claude_response (AsyncIterable (pre @ c # rest) e) message_id model)) =
      opening_events @ content_events (length (delta_texts pre)) @ closing_events @ [None]"
    using events_of_run [of message_id model "''assistant''" 0 "delta_texts pre"]
    by (simp add: run_message_delta [OF stop(2-4)] content frame_events)
  have l: "last
      (fst (stream_claude_response (AsyncIterable (pre @ c # rest) e) message_id model)) = done_wire"
    by (simp add: run_message_delta [OF stop(2-4)] format_done_def)
  show ?thesis
    using g ev l content stop(3,4)
    by (simp add: Let_def sp stop(1) del: replicate.simps)
next
  case (stop_raises pre c rest)
  have "\<not> passes c"
    using stop_raises(3) by (simp add: passes_def)
  note sp = split_at_stop [OF stop_raises(2) this, of rest]
  from assms stop_raises have content: "delta_texts pre \<noteq> []"
    by (simp add: message_delta_before_content_past)
  have ev: "\<exists>msg. map frame_event
      (fst (stream_claude_response (AsyncIterable (pre @ c # rest) e) message_id model)) =
      opening_events @ content_events (length (delta_texts pre)) @ closing_events
      @ [frame_event (format_error ''internal_server_error'' msg), None]"
    using events_of_run [of message_id model "''assistant''" 0 "delta_texts pre"]
    by (intro exI)
       (simp add: run_message_delta_raises [OF stop_raises(2-4)] content
          frame_event_content_block_stop frame_event_message_delta frame_event_message_stop
          frame_event_done)
  have l: "last
      (fst (stream_claude_response (AsyncIterable (pre @ c # rest) e) message_id model)) = done_wire"
    by (simp add: run_message_delta_raises [OF stop_raises(2-4)] format_done_def)
  show ?thesis
    using ev l content stop_raises(3,4)
    by (simp add: Let_def sp stop_raises(1) del: replicate.simps)
next
  case (content_raises pre c rest)
  have c: "\<not> passes c" "\<not> is_message_delta c"
    using content_raises(3,4)
    by (simp_all add: passes_def malformed_def is_content_delta_def is_message_delta_def)
  note sp = split_at_stop [OF content_raises(2) c(1), of rest]
  have empty: "(length (delta_texts pre) = 0) = (delta_texts pre = [])"
    by simp
  have ev: "\<exists>msg. map frame_event
      (fst (stream_claude_response (AsyncIterable (pre @ c # rest) e) message_id model)) =
      opening_events @ content_events (length (delta_texts pre))
      @ (if delta_texts pre = [] then [Some ''content_block_stop''] else [])
      @ [Some ''message_delta'', Some ''message_stop'',
         frame_event (format_error ''internal_server_error'' msg), None]"
    using events_of_run [of message_id model "''assistant''" 0 "delta_texts pre"]
    by (intro exI)
       (simp add: run_content_raises [OF content_raises(2-4)]
          frame_event_content_block_stop frame_event_message_delta frame_event_message_stop
          frame_event_done)
  have l: "last
      (fst (stream_claude_response (AsyncIterable (pre @ c # rest) e) message_id model)) = done_wire"
    by (simp add: run_content_raises [OF content_raises(2-4)] format_done_def)
  show ?thesis
    using ev l c(2)
    by (simp add: Let_def sp content_raises(1) empty del: replicate.simps)
qed

text \<open>
  Counterexample for C1 as stated, on two upstreams. When a cancellation arrives after a
  content frame, the handler skips \<^verbatim>\<open>content_block_stop\<close>, so \<^verbatim>\<open>message_delta\<close> follows
  a content frame directly. When the only chunk is a \<^verbatim>\<open>message_delta\<close> chunk, the closing
  frames come twice. In both runs the frames before DONE are not a prefix of the grammar.
\<close>

theorem lifecycle_grammar_violated:
  "map frame_event (fst (stream_claude_response
        (AsyncIterable [text_chunk ''Hello''] (Raise CancelledError)) ''msg_1'' ''claude'')) =
     [Some ''message_start'', Some ''content_block_start'', Some ''content_block_delta'',
      Some ''message_delta'', Some ''message_stop'', None]
   \<and> \<not> follows_grammar (fst (stream_claude_response
        (AsyncIterable [text_chunk ''Hello''] (Raise CancelledError)) ''msg_1'' ''claude''))
   \<and> map frame_event (fst (stream_claude_response
        (AsyncIterable [stop_chunk ''end_turn''] StopAsyncIteration) ''msg_1'' ''claude'')) =
     [Some ''message_start'', Some ''content_block_start'',
      Some ''content_block_stop'', Some ''message_delta'', Some ''message_stop'',
      Some ''content_block_stop'', Some ''message_delta'', Some ''message_stop'', None]
   \<and> \<not> follows_grammar (fst (stream_claude_response
        (AsyncIterable [stop_chunk ''end_turn''] StopAsyncIteration) ''msg_1'' ''claude''))"
proof -
  have h: "list_all passes [text_chunk ''Hello'']"
    by (simp add: passes_examples)
  have cancelled: "fst (stream_claude_response
        (AsyncIterable [text_chunk ''Hello''] (Raise CancelledError)) ''msg_1'' ''claude'') =
      [format_message_start ''msg_1'' ''claude'' ''assistant'', format_content_block_start 0,
       format_content_block_delta (JStr ''Hello'') 0,
       format_message_delta (JStr ''cancelled'') JNull, format_message_stop, format_done]"
    by (simp add: run_cancelled [OF h] delta_texts_examples content_frames_def)
  have twice: "fst (stream_claude_response
        (AsyncIterable ([] @ stop_chunk ''end_turn'' # []) StopAsyncIteration) ''msg_1'' ''claude'') =
      [format_message_start ''msg_1'' ''claude'' ''assistant'', format_content_block_start 0,
       format_content_block_stop 0, format_message_delta (JStr ''end_turn'') JNull,
       format_message_stop,
       format_content_block_stop 0, format_message_delta (JStr ''end_turn'') JNull,
       format_message_stop, format_done]"
    by (subst run_message_delta)
       (simp_all add: passes_examples delta_texts_examples delta_field_stop_chunk
          content_frames_def)
  have e1: "map frame_event (fst (stream_claude_response
        (AsyncIterable [text_chunk ''Hello''] (Raise CancelledError)) ''msg_1'' ''claude'')) =
     [Some ''message_start'', Some ''content_block_start'', Some ''content_block_delta'',
      Some ''message_delta'', Some ''message_stop'', None]"
    by (simp add: cancelled frame_events)
  have g1: "\<not> follows_grammar (fst (stream_claude_response
        (AsyncIterable [text_chunk ''Hello''] (Raise CancelledError)) ''msg_1'' ''claude''))"
    by (simp add: cancelled follows_grammar_def grammar_prefix_def lifecycle_grammar_def
          frame_events)
  have e2: "map frame_event (fst (stream_claude_response
        (AsyncIterable [stop_chunk ''end_turn''] StopAsyncIteration) ''msg_1'' ''claude'')) =
     [Some ''message_start'', Some ''content_block_start'',
      Some ''content_block_stop'', Some ''message_delta'', Some ''message_stop'',
      Some ''content_block_stop'', Some ''message_delta'', Some ''message_stop'', None]"
    using twice by (simp add: frame_events)
  have g2: "\<not> follows_grammar (fst (stream_claude_response
        (AsyncIterable [stop_chunk ''end_turn''] StopAsyncIteration) ''msg_1'' ''claude''))"
    using twice
    by (simp add: follows_grammar_def grammar_prefix_def lifecycle_grammar_def frame_events)
  show ?thesis
    by (intro conjI) (rule e1 g1 e2 g2)+
qed

text \<open>
  An instance: the stream of the test suite, which is left at its stop chunk.
\<close>

theorem lifecycle_frames_when_content_precedes_stop_witness:
  "\<not> message_delta_before_content
        [start_chunk ''msg_123'', text_chunk ''Hello'', stop_chunk ''end_turn'']
   \<and> map frame_event (fst (stream_claude_response
        (AsyncIterable [start_chunk ''msg_123'', text_chunk ''Hello'', stop_chunk ''end_turn'']
           StopAsyncIteration)
        ''msg_1'' ''claude'')) =
      [Some ''message_start'', Some ''content_block_start'', Some ''content_block_delta'',
       Some ''content_block_stop'', Some ''message_delta'', Some ''message_stop'', None]
   \<and> follows_grammar (fst (stream_claude_response
        (AsyncIterable [start_chunk ''msg_123'', text_chunk ''Hello'', stop_chunk ''end_turn'']
           StopAsyncIteration)
        ''msg_1'' ''claude''))
   \<and> last (fst (stream_claude_response
        (AsyncIterable [start_chunk ''msg_123'', text_chunk ''Hello'', stop_chunk ''end_turn'']
           StopAsyncIteration)
        ''msg_1'' ''claude'')) = done_wire"
proof -
  have h: "\<not> message_delta_before_content
        [start_chunk ''msg_123'', text_chunk ''Hello'', stop_chunk ''end_turn'']"
    by (simp add: chunk_reading example_chunks)
  have stops: "\<not> passes (stop_chunk ''end_turn'')"
    by (simp add: passes_def passes_examples)
  show ?thesis
    using h lifecycle_frames_when_content_precedes_stop [OF h, of StopAsyncIteration "''msg_1''" "''claude''"]
    by (simp add: Let_def passes_examples stops delta_texts_examples)
qed

end
